theory Spec2Isabelle
  imports Complex_Main
begin

section \<open>Numbers, errors and the numpy primitives the code calls\<close>

text \<open>
  The two modules compute with Python and numpy floats. The embedding takes them as
  the real numbers they approximate: \<open>+\<close>, \<open>*\<close> and \<open><\<close> are exact, and a
  one-dimensional numpy array is a \<open>real list\<close>. Every exception the code can raise is a
  constructor of \<open>error\<close>. numpy does not raise when a float computation leaves the
  finite numbers (a division by zero, the mean of an empty array): it warns and carries
  on with \<open>nan\<close> or \<open>inf\<close>. The reals have no such values, so the model stops there
  with \<open>NonFinite\<close>, which is not a Python exception but the mark of that point.
\<close>

datatype error =
    ValueError
  | ZeroDivisionError
  | IndexError
  | UnboundLocalError
  | AssertionError
  | NonFinite

text \<open>
  An arithmetic operator between two one-dimensional arrays works element by element.
  The shapes have to agree, or one of them has length one and is broadcast; any other
  pair of shapes raises \<open>ValueError\<close>.
\<close>

definition np_broadcast ::
  "(real \<Rightarrow> real \<Rightarrow> real) \<Rightarrow> real list \<Rightarrow> real list \<Rightarrow> error + real list" where
  "np_broadcast f xs ys =
     (if length xs = length ys then Inr (map2 f xs ys)
      else if length xs = 1 then Inr (map (f (hd xs)) ys)
      else if length ys = 1 then Inr (map (\<lambda>x. f x (hd ys)) xs)
      else Inl ValueError)"

definition np_sum :: "real list \<Rightarrow> real" where
  "np_sum xs = sum_list xs"

section \<open>monte\_carlo\_tips.py: the loss\<close>

text \<open>
  \<^verbatim>\<open>
  y_hat = b1 + b2 * x
  d = y - y_hat
  return np.sum(d**2)
  \<close>
\<close>

definition calculate_loss :: "real \<Rightarrow> real \<Rightarrow> real list \<Rightarrow> real list \<Rightarrow> error + real" where
  "calculate_loss b1 b2 x y =
     (let y_hat = map (\<lambda>xi. b1 + b2 * xi) x in
      case np_broadcast (\<lambda>a b. a - b) y y_hat of
        Inl e \<Rightarrow> Inl e
      | Inr d \<Rightarrow> Inr (np_sum (map (\<lambda>v. v ^ 2) d)))"

section \<open>monte\_carlo\_tips.py: the random-number source\<close>

text \<open>
  \<open>self.rng\<close> is a stateful numpy generator. The model threads it through the
  calls: \<open>draws g k\<close> is the standard deviate that the generator hands back at its
  \<open>k\<close>-th call and \<open>drawn g\<close> counts the calls made so far. \<open>normal(loc, scale)\<close>
  is \<open>loc + scale * deviate\<close> and raises \<open>ValueError\<close> for a negative scale;
  \<open>uniform(low, high)\<close> is \<open>low + (high - low) * deviate\<close>.
\<close>

record generator =
  draws :: "nat \<Rightarrow> real"
  drawn :: nat

definition rng_normal :: "real \<Rightarrow> real \<Rightarrow> generator \<Rightarrow> error + (real \<times> generator)" where
  "rng_normal loc scale g =
     (if scale < 0 then Inl ValueError
      else Inr (loc + scale * draws g (drawn g), g\<lparr>drawn := Suc (drawn g)\<rparr>))"

definition rng_uniform :: "real \<Rightarrow> real \<Rightarrow> generator \<Rightarrow> real \<times> generator" where
  "rng_uniform low high g =
     (low + (high - low) * draws g (drawn g), g\<lparr>drawn := Suc (drawn g)\<rparr>)"

text \<open>\<open>np.clip(v, lo, hi)\<close> is \<open>minimum(maximum(v, lo), hi)\<close>, also when \<open>lo > hi\<close>.\<close>

definition np_clip :: "real \<Rightarrow> real \<Rightarrow> real \<Rightarrow> real" where
  "np_clip v lo hi = min (max v lo) hi"

section \<open>monte\_carlo\_tips.py: run\_simulation\<close>

text \<open>
  The fields of \<open>self\<close> that \<open>run_simulation\<close> reads: the generated data and the
  generator.
\<close>

record MonteCarloTipsSimulation =
  order_totals :: "real list"
  observed_tips :: "real list"
  rng :: generator

record SimulationResults =
  final_b1 :: real
  final_b2 :: real
  final_loss :: real
  acceptance_rate :: real
  b1_samples :: "real list"
  b2_samples :: "real list"
  loss_samples :: "real list"

text \<open>
  The local variables of the loop: \<open>b1\<close>, \<open>b2\<close>, \<open>current_loss\<close>,
  \<open>n_accepted\<close>, the three lists that grow by \<open>append\<close>, and the generator.
\<close>

record search_state =
  s_b1 :: real
  s_b2 :: real
  s_current_loss :: real
  s_n_accepted :: nat
  s_b1_samples :: "real list"
  s_b2_samples :: "real list"
  s_loss_samples :: "real list"
  s_rng :: generator

text \<open>
  The proposal of one step (lines 167 to 171): two normal draws, the first with five
  times the scale, each sum clipped into its bounds.
\<close>

definition propose ::
  "real \<Rightarrow> real \<times> real \<Rightarrow> real \<times> real \<Rightarrow> search_state \<Rightarrow> error + (real \<times> real \<times> generator)" where
  "propose step_size b1_bounds b2_bounds s =
     (case rng_normal 0 (step_size * 5) (s_rng s) of
        Inl e \<Rightarrow> Inl e
      | Inr (z1, g1) \<Rightarrow>
          (case rng_normal 0 step_size g1 of
             Inl e \<Rightarrow> Inl e
           | Inr (z2, g2) \<Rightarrow>
               Inr (np_clip (s_b1 s + z1) (fst b1_bounds) (snd b1_bounds),
                    np_clip (s_b2 s + z2) (fst b2_bounds) (snd b2_bounds), g2)))"

text \<open>The body of the \<open>for\<close> loop (lines 167 to 183).\<close>

definition search_step ::
  "real \<Rightarrow> real \<times> real \<Rightarrow> real \<times> real \<Rightarrow> real list \<Rightarrow> real list \<Rightarrow> search_state
     \<Rightarrow> error + search_state" where
  "search_step step_size b1_bounds b2_bounds x y s =
     (case propose step_size b1_bounds b2_bounds s of
        Inl e \<Rightarrow> Inl e
      | Inr (b1_new, b2_new, g) \<Rightarrow>
          (case calculate_loss b1_new b2_new x y of
             Inl e \<Rightarrow> Inl e
           | Inr new_loss \<Rightarrow>
               (let t = (if new_loss < s_current_loss s
                         then s\<lparr>s_b1 := b1_new, s_b2 := b2_new, s_current_loss := new_loss,
                                s_n_accepted := s_n_accepted s + 1\<rparr>
                         else s)
                in Inr (t\<lparr>s_b1_samples := s_b1_samples t @ [s_b1 t],
                          s_b2_samples := s_b2_samples t @ [s_b2 t],
                          s_loss_samples := s_loss_samples t @ [s_current_loss t],
                          s_rng := g\<rparr>))))"

text \<open>\<open>for _ in range(n_samples)\<close>: the body, the given number of times.\<close>

fun search_loop ::
  "nat \<Rightarrow> real \<Rightarrow> real \<times> real \<Rightarrow> real \<times> real \<Rightarrow> real list \<Rightarrow> real list \<Rightarrow> search_state
     \<Rightarrow> error + search_state" where
  "search_loop 0 step_size b1_bounds b2_bounds x y s = Inr s"
| "search_loop (Suc k) step_size b1_bounds b2_bounds x y s =
     (case search_step step_size b1_bounds b2_bounds x y s of
        Inl e \<Rightarrow> Inl e
      | Inr s' \<Rightarrow> search_loop k step_size b1_bounds b2_bounds x y s')"

text \<open>The state before the loop (lines 156 to 164).\<close>

definition initial_state :: "real \<Rightarrow> real \<Rightarrow> real \<Rightarrow> generator \<Rightarrow> search_state" where
  "initial_state b1 b2 current_loss g =
     \<lparr>s_b1 = b1, s_b2 = b2, s_current_loss = current_loss, s_n_accepted = 0,
      s_b1_samples = [b1], s_b2_samples = [b2], s_loss_samples = [current_loss],
      s_rng = g\<rparr>"

text \<open>
  \<open>run_simulation\<close>. \<open>n_samples\<close> is a Python \<open>int\<close>: \<open>range\<close> of a negative number
  is empty, and \<open>n_accepted / n_samples\<close> between two ints raises
  \<open>ZeroDivisionError\<close> when \<open>n_samples\<close> is 0. The generator is returned next to the
  results, since the call leaves \<open>self.rng\<close> advanced.
\<close>

definition run_simulation ::
  "MonteCarloTipsSimulation \<Rightarrow> int \<Rightarrow> real \<Rightarrow> real option \<Rightarrow> real option
     \<Rightarrow> real \<times> real \<Rightarrow> real \<times> real \<Rightarrow> real list option \<Rightarrow> real list option
     \<Rightarrow> error + (SimulationResults \<times> generator)" where
  "run_simulation self n_samples step_size b1_init b2_init b1_bounds b2_bounds
       order_totals_arg observed_tips_arg =
     (let (b1, g1) = (case b1_init of None \<Rightarrow> rng_uniform 0 10 (rng self)
                                    | Some v \<Rightarrow> (v, rng self));
          (b2, g2) = (case b2_init of None \<Rightarrow> rng_uniform (5 / 100) (50 / 100) g1
                                    | Some v \<Rightarrow> (v, g1));
          x = (case order_totals_arg of None \<Rightarrow> order_totals self | Some a \<Rightarrow> a);
          y = (case observed_tips_arg of None \<Rightarrow> observed_tips self | Some a \<Rightarrow> a)
      in case calculate_loss b1 b2 x y of
           Inl e \<Rightarrow> Inl e
         | Inr current_loss \<Rightarrow>
             (case search_loop (nat n_samples) step_size b1_bounds b2_bounds x y
                     (initial_state b1 b2 current_loss g2) of
                Inl e \<Rightarrow> Inl e
              | Inr s \<Rightarrow>
                  if n_samples = 0 then Inl ZeroDivisionError
                  else Inr (\<lparr>final_b1 = s_b1 s, final_b2 = s_b2 s,
                             final_loss = s_current_loss s,
                             acceptance_rate = real (s_n_accepted s) / real_of_int n_samples,
                             b1_samples = s_b1_samples s, b2_samples = s_b2_samples s,
                             loss_samples = s_loss_samples s\<rparr>, s_rng s)))"

section \<open>linear\_regression\_sse\_viz.py: numpy reductions and grids\<close>

text \<open>
  \<open>np.mean\<close> of an empty array is \<open>nan\<close> (with a warning), \<open>np.std\<close> is
  \<open>sqrt(mean(abs(x - mean(x)) ** 2))\<close>, and \<open>np.max\<close> and \<open>np.min\<close> of an empty
  array raise \<open>ValueError\<close>.
\<close>

definition np_mean :: "real list \<Rightarrow> error + real" where
  "np_mean xs = (if xs = [] then Inl NonFinite else Inr (np_sum xs / real (length xs)))"

definition np_std :: "real list \<Rightarrow> error + real" where
  "np_std xs =
     (case np_mean xs of
        Inl e \<Rightarrow> Inl e
      | Inr m \<Rightarrow>
          (case np_mean (map (\<lambda>v. \<bar>v - m\<bar> ^ 2) xs) of
             Inl e \<Rightarrow> Inl e
           | Inr var \<Rightarrow> Inr (sqrt var)))"

definition np_max :: "real list \<Rightarrow> error + real" where
  "np_max xs = (if xs = [] then Inl ValueError else Inr (Max (set xs)))"

definition np_min :: "real list \<Rightarrow> error + real" where
  "np_min xs = (if xs = [] then Inl ValueError else Inr (Min (set xs)))"

text \<open>
  \<open>np.linspace(start, stop, num)\<close>: a negative \<open>num\<close> raises \<open>ValueError\<close>, one
  point is \<open>start\<close> alone, and otherwise the points are \<open>start + i * step\<close> with
  \<open>step = (stop - start) / (num - 1)\<close>.
\<close>

definition np_linspace :: "real \<Rightarrow> real \<Rightarrow> int \<Rightarrow> error + real list" where
  "np_linspace start stop num =
     (if num < 0 then Inl ValueError
      else if num = 1 then Inr [start]
      else Inr (map (\<lambda>i. start + real i * ((stop - start) / real (nat num - 1)))
                  [0..<nat num]))"

text \<open>
  \<open>np.meshgrid(a, b)\<close> with the default \<open>xy\<close> indexing: both results have
  \<open>len(b)\<close> rows and \<open>len(a)\<close> columns, the first repeats \<open>a\<close> in every row,
  the second holds \<open>b[i]\<close> all along row \<open>i\<close>.
\<close>

definition np_meshgrid :: "real list \<Rightarrow> real list \<Rightarrow> real list list \<times> real list list" where
  "np_meshgrid a b = (replicate (length b) a, map (\<lambda>v. replicate (length a) v) b)"

text \<open>The first error of a list of results, or all the values.\<close>

primrec sequence_results :: "(error + 'a) list \<Rightarrow> error + 'a list" where
  "sequence_results [] = Inr []"
| "sequence_results (r # rs) =
     (case r of
        Inl e \<Rightarrow> Inl e
      | Inr v \<Rightarrow> (case sequence_results rs of Inl e \<Rightarrow> Inl e | Inr vs \<Rightarrow> Inr (v # vs)))"

section \<open>linear\_regression\_sse\_viz.py: the visualizer\<close>

text \<open>
  The attributes of a \<open>LinearRegressionSSEVisualizer\<close>. The four statistics exist only
  after a construction with \<open>standardize=True\<close>.
\<close>

record LinearRegressionSSEVisualizer =
  x_data :: "real list"
  y_data :: "real list"
  true_bias :: "real option"
  true_slope :: "real option"
  standardized :: bool
  x_mean :: "real option"
  x_std :: "real option"
  y_mean :: "real option"
  y_std :: "real option"
  true_sse :: "real option"
  surface_min_bias :: "real option"
  surface_min_slope :: "real option"
  surface_min_sse :: "real option"

text \<open>
  \<open>_calculate_sse\<close> (lines 94 to 96):
  \<^verbatim>\<open>
  y_pred = bias + slope * self.x_data
  residuals = self.y_data - y_pred
  return float(np.sum(residuals**2))
  \<close>
\<close>

definition calculate_sse :: "LinearRegressionSSEVisualizer \<Rightarrow> real \<Rightarrow> real \<Rightarrow> error + real" where
  "calculate_sse self bias slope =
     (let y_pred = map (\<lambda>xi. bias + slope * xi) (x_data self) in
      case np_broadcast (\<lambda>a b. a - b) (y_data self) y_pred of
        Inl e \<Rightarrow> Inl e
      | Inr residuals \<Rightarrow> Inr (np_sum (map (\<lambda>v. v ^ 2) residuals)))"

text \<open>
  The \<open>standardize\<close> branch of \<open>__init__\<close> (lines 52 to 71). A standard deviation
  of zero makes the division produce \<open>nan\<close> or \<open>inf\<close>. The true parameters are
  adjusted only when both are given.
\<close>

definition standardize_data ::
  "LinearRegressionSSEVisualizer \<Rightarrow> error + LinearRegressionSSEVisualizer" where
  "standardize_data self =
     (case np_mean (x_data self) of Inl e \<Rightarrow> Inl e | Inr xm \<Rightarrow>
      (case np_std (x_data self) of Inl e \<Rightarrow> Inl e | Inr xs \<Rightarrow>
       (case np_mean (y_data self) of Inl e \<Rightarrow> Inl e | Inr ym \<Rightarrow>
        (case np_std (y_data self) of Inl e \<Rightarrow> Inl e | Inr ys \<Rightarrow>
           if xs = 0 \<or> ys = 0 then Inl NonFinite
           else
             (let scaled = self\<lparr>standardized := True,
                               x_mean := Some xm, x_std := Some xs,
                               y_mean := Some ym, y_std := Some ys,
                               x_data := map (\<lambda>v. (v - xm) / xs) (x_data self),
                               y_data := map (\<lambda>v. (v - ym) / ys) (y_data self)\<rparr>
              in case (true_bias self, true_slope self) of
                   (Some b, Some s) \<Rightarrow>
                     Inr (scaled\<lparr>true_bias := Some ((b + s * xm - ym) / ys),
                                 true_slope := Some (s * (xs / ys))\<rparr>)
                 | _ \<Rightarrow> Inr scaled)))))"

text \<open>\<open>__init__\<close> (lines 47 to 80).\<close>

definition init_visualizer ::
  "real list \<Rightarrow> real list \<Rightarrow> real option \<Rightarrow> real option \<Rightarrow> bool
     \<Rightarrow> error + LinearRegressionSSEVisualizer" where
  "init_visualizer x y bias slope standardize =
     (let self = \<lparr>x_data = x, y_data = y, true_bias = bias, true_slope = slope,
                  standardized = False, x_mean = None, x_std = None, y_mean = None,
                  y_std = None, true_sse = None, surface_min_bias = None,
                  surface_min_slope = None, surface_min_sse = None\<rparr>
      in case (if standardize then standardize_data self else Inr self) of
           Inl e \<Rightarrow> Inl e
         | Inr self' \<Rightarrow>
             (case (true_bias self', true_slope self') of
                (Some b, Some s) \<Rightarrow>
                  (case calculate_sse self' b s of
                     Inl e \<Rightarrow> Inl e
                   | Inr v \<Rightarrow> Inr (self'\<lparr>true_sse := Some v\<rparr>))
              | _ \<Rightarrow> Inr self'))"

section \<open>linear\_regression\_sse\_viz.py: calculate\_sse\_surface\<close>

text \<open>
  The centres of the automatic ranges: the true parameter when it is known, otherwise
  the mean of the targets for the bias and \<open>y_range / x_range\<close> for the slope; a
  feature range of zero makes that division non-finite.
\<close>

definition bias_center_of :: "LinearRegressionSSEVisualizer \<Rightarrow> error + real" where
  "bias_center_of self =
     (case true_bias self of Some b \<Rightarrow> Inr b | None \<Rightarrow> np_mean (y_data self))"

definition slope_center_of :: "LinearRegressionSSEVisualizer \<Rightarrow> error + real" where
  "slope_center_of self =
     (case true_slope self of
        Some s \<Rightarrow> Inr s
      | None \<Rightarrow>
          (case np_max (x_data self) of Inl e \<Rightarrow> Inl e | Inr x_hi \<Rightarrow>
           (case np_min (x_data self) of Inl e \<Rightarrow> Inl e | Inr x_lo \<Rightarrow>
            (case np_max (y_data self) of Inl e \<Rightarrow> Inl e | Inr y_hi \<Rightarrow>
             (case np_min (y_data self) of Inl e \<Rightarrow> Inl e | Inr y_lo \<Rightarrow>
                if x_hi - x_lo = 0 then Inl NonFinite
                else Inr ((y_hi - y_lo) / (x_hi - x_lo)))))))"

text \<open>
  Lines 118 to 145. The first \<open>if\<close> binds \<open>bias_center\<close> and \<open>scope\<close> only when
  \<open>bias_range\<close> is \<open>None\<close>; the second reads \<open>scope\<close> in
  \<open>max(scope, slope_scope)\<close>, which is unbound when \<open>bias_range\<close> was supplied, and it
  is the only place that assigns \<open>bias_range\<close>; the two \<open>assert\<close>s follow.
\<close>

definition detect_ranges ::
  "LinearRegressionSSEVisualizer \<Rightarrow> (real \<times> real) option \<Rightarrow> (real \<times> real) option \<Rightarrow> real
     \<Rightarrow> error + ((real \<times> real) \<times> (real \<times> real))" where
  "detect_ranges self bias_range slope_range scale_factor =
     (case (case bias_range of
              None \<Rightarrow> (case bias_center_of self of
                         Inl e \<Rightarrow> Inl e
                       | Inr bias_center \<Rightarrow> Inr (Some (bias_center, \<bar>bias_center\<bar> * scale_factor)))
            | Some _ \<Rightarrow> Inr None) of
        Inl e \<Rightarrow> Inl e
      | Inr bound \<Rightarrow>
          (case slope_range of
             None \<Rightarrow>
               (case slope_center_of self of
                  Inl e \<Rightarrow> Inl e
                | Inr slope_center \<Rightarrow>
                    (let slope_scope = \<bar>slope_center\<bar> * scale_factor in
                     case bound of
                       None \<Rightarrow> Inl UnboundLocalError
                     | Some (bias_center, scope0) \<Rightarrow>
                         (let scope = max scope0 slope_scope in
                          Inr ((bias_center - scope, bias_center + scope),
                               (slope_center - scope, slope_center + scope)))))
           | Some sr \<Rightarrow>
               (case bias_range of
                  None \<Rightarrow> Inl AssertionError
                | Some br \<Rightarrow> Inr (br, sr))))"

text \<open>Lines 146 to 156: the two grids and the loss at every cell.\<close>

definition surface_on_ranges ::
  "LinearRegressionSSEVisualizer \<Rightarrow> real \<times> real \<Rightarrow> real \<times> real \<Rightarrow> int
     \<Rightarrow> error + (real list list \<times> real list list \<times> real list list)" where
  "surface_on_ranges self bias_range slope_range resolution =
     (case np_linspace (fst bias_range) (snd bias_range) resolution of
        Inl e \<Rightarrow> Inl e
      | Inr bias_vals \<Rightarrow>
          (case np_linspace (fst slope_range) (snd slope_range) resolution of
             Inl e \<Rightarrow> Inl e
           | Inr slope_vals \<Rightarrow>
               (let (bias_mesh, slope_mesh) = np_meshgrid bias_vals slope_vals in
                case sequence_results
                       (map (\<lambda>i. sequence_results
                                   (map (\<lambda>j. calculate_sse self (bias_mesh ! i ! j)
                                                  (slope_mesh ! i ! j))
                                      [0..<nat resolution]))
                          [0..<nat resolution]) of
                  Inl e \<Rightarrow> Inl e
                | Inr sse_mesh \<Rightarrow> Inr (bias_mesh, slope_mesh, sse_mesh))))"

definition calculate_sse_surface ::
  "LinearRegressionSSEVisualizer \<Rightarrow> (real \<times> real) option \<Rightarrow> (real \<times> real) option \<Rightarrow> int
     \<Rightarrow> real \<Rightarrow> error + (real list list \<times> real list list \<times> real list list)" where
  "calculate_sse_surface self bias_range slope_range resolution scale_factor =
     (case detect_ranges self bias_range slope_range scale_factor of
        Inl e \<Rightarrow> Inl e
      | Inr (br, sr) \<Rightarrow> surface_on_ranges self br sr resolution)"

section \<open>linear\_regression\_sse\_viz.py: the optimisation path\<close>

text \<open>
  \<open>xs[::step]\<close> for a positive step: the entries at the indices \<open>0, step, 2 * step,
  ...\<close> below \<open>len(xs)\<close>, of which there are \<open>ceil(len(xs) / step)\<close>.
\<close>

definition slice_step :: "nat \<Rightarrow> 'a list \<Rightarrow> 'a list" where
  "slice_step step xs = map (\<lambda>k. xs ! (k * step)) [0..<(length xs + step - 1) div step]"

datatype marker_color = Named string | Scale "real list"

record scatter3d =
  trace_name :: string
  trace_x :: "real list"
  trace_y :: "real list"
  trace_z :: "real list"
  trace_color :: marker_color

text \<open>
  \<open>_add_optimization_trace\<close> (lines 279 to 349) adds three traces to the figure, taken
  here as the list of its scatter traces: the subsampled path, the start point and the
  end point. \<open>samples[0]\<close> and \<open>samples[-1]\<close> raise \<open>IndexError\<close> on an empty
  array.
\<close>

definition add_optimization_trace ::
  "scatter3d list \<Rightarrow> real list \<Rightarrow> real list \<Rightarrow> real list \<Rightarrow> error + scatter3d list" where
  "add_optimization_trace fig bias_samples slope_samples loss_samples' =
     (let step = max 1 (length bias_samples div 1000);
          bias_sub = slice_step step bias_samples;
          slope_sub = slice_step step slope_samples;
          loss_sub = slice_step step loss_samples'
      in case np_linspace 0 1 (int (length bias_sub)) of
           Inl e \<Rightarrow> Inl e
         | Inr colors \<Rightarrow>
             if bias_samples = [] \<or> slope_samples = [] \<or> loss_samples' = []
             then Inl IndexError
             else Inr (fig @
                    [\<lparr>trace_name = ''Optimization Path'', trace_x = bias_sub,
                      trace_y = slope_sub, trace_z = loss_sub, trace_color = Scale colors\<rparr>,
                     \<lparr>trace_name = ''Start Point'', trace_x = [bias_samples ! 0],
                      trace_y = [slope_samples ! 0], trace_z = [loss_samples' ! 0],
                      trace_color = Named ''red''\<rparr>,
                     \<lparr>trace_name = ''End Point'', trace_x = [last bias_samples],
                      trace_y = [last slope_samples], trace_z = [last loss_samples'],
                      trace_color = Named ''blue''\<rparr>]))"


section \<open>Properties of the loss\<close>

lemma calculate_loss_same_length:
  "length x = length y \<Longrightarrow>
   calculate_loss b1 b2 x y = Inr (\<Sum>(xi, yi) \<leftarrow> zip x y. (yi - (b1 + b2 * xi)) ^ 2)"
proof -
  assume len: "length x = length y"
  have "map (\<lambda>v. v ^ 2) (map2 (\<lambda>a b. a - b) y (map (\<lambda>xi. b1 + b2 * xi) x))
        = map (\<lambda>(xi, yi). (yi - (b1 + b2 * xi)) ^ 2) (zip x y)"
    using len by (induction x y rule: list_induct2) simp_all
  then show ?thesis
    using len by (simp add: calculate_loss_def np_broadcast_def np_sum_def)
qed

section \<open>The loss on the worked example\<close>

text \<open>
  C9. On the three points (3, 1.0), (10, 2.0), (25, 4.0) with \<open>b1 = 0.5\<close> and
  \<open>b2 = 0.15\<close> the predicted tips are 0.95, 2.0 and 4.25, the squared residuals are
  0.0025, 0 and 0.0625, and \<open>calculate_loss\<close> returns 0.065.
\<close>

theorem calculate_loss_example:
  "calculate_loss (5 / 10) (15 / 100) [3, 10, 25] [1, 2, 4] = Inr (65 / 1000)
   \<and> map (\<lambda>xi. 5 / 10 + 15 / 100 * xi) [3, 10, 25 :: real] = [95 / 100, 2, 425 / 100]
   \<and> np_broadcast (\<lambda>a b. a - b) [1, 2, 4] [95 / 100, 2, 425 / 100]
        = Inr [5 / 100, 0, - (25 / 100)]
   \<and> map (\<lambda>v. v ^ 2) [5 / 100, 0, - (25 / 100) :: real] = [25 / 10000, 0, 625 / 10000]"
  by (simp add: calculate_loss_def np_broadcast_def np_sum_def power2_eq_square)

lemma sum_squares_nonneg: "0 \<le> np_sum (map (\<lambda>v. v ^ 2) (d :: real list))"
  unfolding np_sum_def by (rule sum_list_nonneg) auto

lemma sum_squares_zero_iff:
  "np_sum (map (\<lambda>v. v ^ 2) (d :: real list)) = 0 \<longleftrightarrow> (\<forall>v \<in> set d. v = 0)"
proof -
  have "sum_list (map (\<lambda>v. v ^ 2) d) = 0 \<longleftrightarrow> (\<forall>w \<in> set (map (\<lambda>v. v ^ 2) d). w = 0)"
    by (rule sum_list_nonneg_eq_0_iff) auto
  then show ?thesis by (simp add: np_sum_def)
qed

lemma calculate_loss_nonneg: "calculate_loss b1 b2 x y = Inr l \<Longrightarrow> 0 \<le> l"
  using sum_squares_nonneg
  by (auto simp: calculate_loss_def Let_def split: sum.splits)

lemma calculate_sse_eq_loss:
  "calculate_sse self bias slope = calculate_loss bias slope (x_data self) (y_data self)"
  by (simp add: calculate_sse_def calculate_loss_def)

lemma residuals_dataset:
  "np_broadcast (\<lambda>a b. a - b) (map snd ds) (map (\<lambda>xi. b1 + b2 * xi) (map fst ds))
     = Inr (map (\<lambda>(xi, yi). yi - (b1 + b2 * xi)) ds)"
proof -
  have "map2 (\<lambda>a b. a - b) (map snd ds) (map (\<lambda>xi. b1 + b2 * xi) (map fst ds))
        = map (\<lambda>(xi, yi). yi - (b1 + b2 * xi)) ds"
    by (induction ds) auto
  then show ?thesis by (simp add: np_broadcast_def)
qed

lemma calculate_loss_dataset:
  "calculate_loss b1 b2 (map fst ds) (map snd ds)
     = Inr (np_sum (map (\<lambda>v. v ^ 2) (map (\<lambda>(xi, yi). yi - (b1 + b2 * xi)) ds)))"
  unfolding calculate_loss_def Let_def residuals_dataset by simp

text \<open>
  C3. The loss is never negative, for \<open>calculate_loss\<close> and for \<open>_calculate_sse\<close>
  alike, and on a dataset of (feature, target) pairs both return the same value, which
  is 0 exactly when every point lies on the line \<open>y = b1 + b2 * x\<close>.
\<close>

theorem loss_nonneg_zero_iff:
  "(calculate_loss b1 b2 x y = Inr l \<longrightarrow> 0 \<le> l)
   \<and> (calculate_sse self b1 b2 = Inr l' \<longrightarrow> 0 \<le> l')
   \<and> (\<exists>v. calculate_loss b1 b2 (map fst ds) (map snd ds) = Inr v
          \<and> calculate_sse (self\<lparr>x_data := map fst ds, y_data := map snd ds\<rparr>) b1 b2 = Inr v
          \<and> 0 \<le> v
          \<and> (v = 0 \<longleftrightarrow> (\<forall>(xi, yi) \<in> set ds. yi = b1 + b2 * xi)))"
proof (intro conjI impI)
  assume "calculate_loss b1 b2 x y = Inr l"
  then show "0 \<le> l" by (rule calculate_loss_nonneg)
next
  assume "calculate_sse self b1 b2 = Inr l'"
  then show "0 \<le> l'" unfolding calculate_sse_eq_loss by (rule calculate_loss_nonneg)
next
  define d where "d = map (\<lambda>(xi, yi). yi - (b1 + b2 * xi)) ds"
  define v where "v = np_sum (map (\<lambda>v. v ^ 2) d)"
  have 1: "calculate_loss b1 b2 (map fst ds) (map snd ds) = Inr v"
    by (simp add: calculate_loss_dataset v_def d_def)
  then have 2: "calculate_sse (self\<lparr>x_data := map fst ds, y_data := map snd ds\<rparr>) b1 b2 = Inr v"
    by (simp add: calculate_sse_eq_loss)
  have 3: "0 \<le> v" unfolding v_def by (rule sum_squares_nonneg)
  have "v = 0 \<longleftrightarrow> (\<forall>w \<in> set d. w = 0)" unfolding v_def by (rule sum_squares_zero_iff)
  also have "\<dots> \<longleftrightarrow> (\<forall>(xi, yi) \<in> set ds. yi = b1 + b2 * xi)"
    by (auto simp: d_def)
  finally have 4: "v = 0 \<longleftrightarrow> (\<forall>(xi, yi) \<in> set ds. yi = b1 + b2 * xi)" .
  from 1 2 3 4 show "\<exists>v. calculate_loss b1 b2 (map fst ds) (map snd ds) = Inr v
          \<and> calculate_sse (self\<lparr>x_data := map fst ds, y_data := map snd ds\<rparr>) b1 b2 = Inr v
          \<and> 0 \<le> v
          \<and> (v = 0 \<longleftrightarrow> (\<forall>(xi, yi) \<in> set ds. yi = b1 + b2 * xi))"
    by blast
qed

theorem loss_nonneg_zero_iff_witness:
  "calculate_loss 1 2 [1, 2] [3, 5] = Inr 0
   \<and> (3 :: real) = 1 + 2 * 1 \<and> (5 :: real) = 1 + 2 * 2
   \<and> calculate_loss 0 0 [1, 2] [1, 2] = Inr 5 \<and> (0 :: real) \<le> 5
   \<and> (1 :: real) \<noteq> 0 + 0 * 1"
proof -
  have a: "calculate_loss 0 0 [1, 2] [1, 2] = Inr 5"
    by (simp add: calculate_loss_def np_broadcast_def np_sum_def)
  from loss_nonneg_zero_iff[of 1 2 "[1, 2]" "[3, 5]" 0 _ _ "[(1, 3), (2, 5)]"]
  have "calculate_loss 1 2 [1, 2] [3, 5] = Inr 0" by auto
  moreover from loss_nonneg_zero_iff[of 0 0 "[1, 2]" "[1, 2]" 5] a have "(0 :: real) \<le> 5"
    by blast
  ultimately show ?thesis using a by simp
qed

section \<open>Properties of the stochastic search\<close>

lemma search_loop_invariant:
  assumes "search_loop k st bb1 bb2 x y s = Inr s'"
    and "I s"
    and "\<And>t t'. I t \<Longrightarrow> search_step st bb1 bb2 x y t = Inr t' \<Longrightarrow> I t'"
  shows "I s'"
  using assms(1,2)
proof (induction k arbitrary: s)
  case 0
  then show ?case by simp
next
  case (Suc k)
  from Suc.prems(1) obtain t where t: "search_step st bb1 bb2 x y s = Inr t"
    and rest: "search_loop k st bb1 bb2 x y t = Inr s'"
    by (auto split: sum.splits)
  from assms(3)[OF Suc.prems(2) t] have "I t" .
  with Suc.IH rest show ?case by blast
qed

lemma search_step_InrD:
  assumes "search_step st bb1 bb2 x y s = Inr s'"
  shows "\<exists>b1n b2n g nl. propose st bb1 bb2 s = Inr (b1n, b2n, g)
           \<and> calculate_loss b1n b2n x y = Inr nl
           \<and> s_b1 s' = (if nl < s_current_loss s then b1n else s_b1 s)
           \<and> s_b2 s' = (if nl < s_current_loss s then b2n else s_b2 s)
           \<and> s_current_loss s' = (if nl < s_current_loss s then nl else s_current_loss s)
           \<and> s_n_accepted s' = (if nl < s_current_loss s then Suc (s_n_accepted s) else s_n_accepted s)
           \<and> s_b1_samples s' = s_b1_samples s @ [s_b1 s']
           \<and> s_b2_samples s' = s_b2_samples s @ [s_b2 s']
           \<and> s_loss_samples s' = s_loss_samples s @ [s_current_loss s']
           \<and> s_rng s' = g"
proof -
  from assms obtain b1n b2n g where p: "propose st bb1 bb2 s = Inr (b1n, b2n, g)"
    by (cases "propose st bb1 bb2 s") (auto simp: search_step_def)
  from assms p obtain nl where c: "calculate_loss b1n b2n x y = Inr nl"
    by (cases "calculate_loss b1n b2n x y") (auto simp: search_step_def)
  have "s' = (let t = (if nl < s_current_loss s
                         then s\<lparr>s_b1 := b1n, s_b2 := b2n, s_current_loss := nl,
                                s_n_accepted := s_n_accepted s + 1\<rparr>
                         else s)
                in (t\<lparr>s_b1_samples := s_b1_samples t @ [s_b1 t],
                          s_b2_samples := s_b2_samples t @ [s_b2 t],
                          s_loss_samples := s_loss_samples t @ [s_current_loss t],
                          s_rng := g\<rparr>))"
    using assms by (simp add: search_step_def p c Let_def split: if_splits)
  then have "s_b1 s' = (if nl < s_current_loss s then b1n else s_b1 s)
           \<and> s_b2 s' = (if nl < s_current_loss s then b2n else s_b2 s)
           \<and> s_current_loss s' = (if nl < s_current_loss s then nl else s_current_loss s)
           \<and> s_n_accepted s' = (if nl < s_current_loss s then Suc (s_n_accepted s) else s_n_accepted s)
           \<and> s_b1_samples s' = s_b1_samples s @ [s_b1 s']
           \<and> s_b2_samples s' = s_b2_samples s @ [s_b2 s']
           \<and> s_loss_samples s' = s_loss_samples s @ [s_current_loss s']
           \<and> s_rng s' = g"
    by (simp add: Let_def)
  with p c show ?thesis by blast
qed

lemma propose_InrD:
  assumes "propose st bb1 bb2 s = Inr (b1n, b2n, g)"
  shows "\<exists>z1 z2. b1n = np_clip z1 (fst bb1) (snd bb1)
              \<and> b2n = np_clip z2 (fst bb2) (snd bb2)"
  using assms by (auto simp: propose_def split: sum.splits prod.splits)

lemma propose_returns:
  "0 \<le> st \<Longrightarrow> \<exists>p. propose st bb1 bb2 s = Inr p"
  by (simp add: propose_def rng_normal_def)

lemma calculate_loss_shape:
  "calculate_loss a b x y = Inr l \<Longrightarrow> \<exists>l'. calculate_loss a' b' x y = Inr l'"
  by (auto simp: calculate_loss_def np_broadcast_def Let_def split: if_splits)

lemma search_step_returns:
  assumes "0 \<le> st" "calculate_loss a b x y = Inr l"
  shows "\<exists>s'. search_step st bb1 bb2 x y s = Inr s'"
proof -
  from propose_returns[OF assms(1)] obtain b1n b2n g
    where p: "propose st bb1 bb2 s = Inr (b1n, b2n, g)" by (metis prod_cases3)
  from calculate_loss_shape[OF assms(2)] obtain nl
    where c: "calculate_loss b1n b2n x y = Inr nl" by blast
  show ?thesis by (simp add: search_step_def p c Let_def)
qed

lemma search_loop_returns:
  assumes "0 \<le> st" "calculate_loss a b x y = Inr l"
  shows "\<exists>s'. search_loop k st bb1 bb2 x y s = Inr s'"
proof (induction k arbitrary: s)
  case 0
  then show ?case by simp
next
  case (Suc k)
  from search_step_returns[OF assms] obtain t
    where "search_step st bb1 bb2 x y s = Inr t" by blast
  with Suc.IH[of t] show ?case by simp
qed

lemma search_loop_length:
  assumes "search_loop k st bb1 bb2 x y s = Inr s'"
  shows "length (s_b1_samples s') = length (s_b1_samples s) + k
       \<and> length (s_b2_samples s') = length (s_b2_samples s) + k
       \<and> length (s_loss_samples s') = length (s_loss_samples s) + k"
  using assms
proof (induction k arbitrary: s)
  case 0
  then show ?case by simp
next
  case (Suc k)
  from Suc.prems obtain t where t: "search_step st bb1 bb2 x y s = Inr t"
    and rest: "search_loop k st bb1 bb2 x y t = Inr s'"
    by (auto split: sum.splits)
  from search_step_InrD[OF t] have
    "length (s_b1_samples t) = Suc (length (s_b1_samples s))"
    "length (s_b2_samples t) = Suc (length (s_b2_samples s))"
    "length (s_loss_samples t) = Suc (length (s_loss_samples s))"
    by auto
  with Suc.IH[OF rest] show ?case by simp
qed

lemma sorted_desc_last_le:
  "sorted_wrt (\<lambda>a b. b \<le> a) xs \<Longrightarrow> (a::real) \<in> set xs \<Longrightarrow> last xs \<le> a"
  by (induction xs) auto

lemma loss_chain_step:
  assumes "s_loss_samples t \<noteq> [] \<and> last (s_loss_samples t) = s_current_loss t
      \<and> sorted_wrt (\<lambda>a b. b \<le> a) (s_loss_samples t)"
    and "search_step st bb1 bb2 x y t = Inr t'"
  shows "s_loss_samples t' \<noteq> [] \<and> last (s_loss_samples t') = s_current_loss t'
      \<and> sorted_wrt (\<lambda>a b. b \<le> a) (s_loss_samples t')"
proof -
  from search_step_InrD[OF assms(2)] obtain nl where
    l: "s_current_loss t' = (if nl < s_current_loss t then nl else s_current_loss t)"
    and ls: "s_loss_samples t' = s_loss_samples t @ [s_current_loss t']"
    by blast
  have le: "s_current_loss t' \<le> s_current_loss t" using l by simp
  have "\<forall>a \<in> set (s_loss_samples t). last (s_loss_samples t) \<le> a"
    using assms(1) sorted_desc_last_le by blast
  then show ?thesis
    using assms(1) le ls by (auto simp: sorted_wrt_append)
qed

lemma search_loop_loss_chain:
  assumes "search_loop k st bb1 bb2 x y s = Inr s'"
    and "s_loss_samples s \<noteq> [] \<and> last (s_loss_samples s) = s_current_loss s
      \<and> sorted_wrt (\<lambda>a b. b \<le> a) (s_loss_samples s)"
  shows "sorted_wrt (\<lambda>a b. b \<le> a) (s_loss_samples s')"
proof -
  have "s_loss_samples s' \<noteq> [] \<and> last (s_loss_samples s') = s_current_loss s'
      \<and> sorted_wrt (\<lambda>a b. b \<le> a) (s_loss_samples s')"
    using assms(1,2) loss_chain_step
    by (rule search_loop_invariant
        [where I = "\<lambda>s. s_loss_samples s \<noteq> [] \<and> last (s_loss_samples s) = s_current_loss s
      \<and> sorted_wrt (\<lambda>a b. b \<le> a) (s_loss_samples s)"])
  then show ?thesis by simp
qed

lemma sorted_desc_adjacent:
  "sorted_wrt (\<lambda>a b. b \<le> a) xs \<Longrightarrow> Suc i < length xs \<Longrightarrow> xs ! Suc i \<le> (xs ! i :: real)"
  by (simp add: sorted_wrt_iff_nth_less)

lemma run_simulation_unfold:
  "run_simulation self n st b1i b2i bb1 bb2 ot tips =
     (let p1 = (case b1i of None \<Rightarrow> rng_uniform 0 10 (rng self) | Some v \<Rightarrow> (v, rng self));
          p2 = (case b2i of None \<Rightarrow> rng_uniform (5 / 100) (50 / 100) (snd p1)
                          | Some v \<Rightarrow> (v, snd p1));
          x = (case ot of None \<Rightarrow> order_totals self | Some a \<Rightarrow> a);
          y = (case tips of None \<Rightarrow> observed_tips self | Some a \<Rightarrow> a)
      in case calculate_loss (fst p1) (fst p2) x y of
           Inl e \<Rightarrow> Inl e
         | Inr l0 \<Rightarrow>
             (case search_loop (nat n) st bb1 bb2 x y (initial_state (fst p1) (fst p2) l0 (snd p2)) of
                Inl e \<Rightarrow> Inl e
              | Inr s \<Rightarrow>
                  if n = 0 then Inl ZeroDivisionError
                  else Inr (\<lparr>final_b1 = s_b1 s, final_b2 = s_b2 s,
                             final_loss = s_current_loss s,
                             acceptance_rate = real (s_n_accepted s) / real_of_int n,
                             b1_samples = s_b1_samples s, b2_samples = s_b2_samples s,
                             loss_samples = s_loss_samples s\<rparr>, s_rng s)))"
  by (simp add: run_simulation_def Let_def case_prod_beta)

lemma run_simulation_InrD:
  assumes "run_simulation self n st b1i b2i bb1 bb2 ot tips = Inr (res, g)"
  shows "\<exists>b1 b2 l0 g0 s.
           calculate_loss b1 b2 (case ot of None \<Rightarrow> order_totals self | Some a \<Rightarrow> a)
                (case tips of None \<Rightarrow> observed_tips self | Some a \<Rightarrow> a) = Inr l0
         \<and> (\<forall>v. b1i = Some v \<longrightarrow> b1 = v) \<and> (\<forall>v. b2i = Some v \<longrightarrow> b2 = v)
         \<and> search_loop (nat n) st bb1 bb2 (case ot of None \<Rightarrow> order_totals self | Some a \<Rightarrow> a)
                (case tips of None \<Rightarrow> observed_tips self | Some a \<Rightarrow> a)
                (initial_state b1 b2 l0 g0) = Inr s
         \<and> n \<noteq> 0
         \<and> res = \<lparr>final_b1 = s_b1 s, final_b2 = s_b2 s, final_loss = s_current_loss s,
                   acceptance_rate = real (s_n_accepted s) / real_of_int n,
                   b1_samples = s_b1_samples s, b2_samples = s_b2_samples s,
                   loss_samples = s_loss_samples s\<rparr>"
proof -
  define p1 where "p1 = (case b1i of None \<Rightarrow> rng_uniform 0 10 (rng self) | Some v \<Rightarrow> (v, rng self))"
  define p2 where "p2 = (case b2i of None \<Rightarrow> rng_uniform (5 / 100) (50 / 100) (snd p1)
                          | Some v \<Rightarrow> (v, snd p1))"
  define x where "x = (case ot of None \<Rightarrow> order_totals self | Some a \<Rightarrow> a)"
  define y where "y = (case tips of None \<Rightarrow> observed_tips self | Some a \<Rightarrow> a)"
  note run = assms[unfolded run_simulation_unfold Let_def, folded p1_def, folded p2_def x_def y_def]
  from run obtain l0 where l0: "calculate_loss (fst p1) (fst p2) x y = Inr l0"
    by (cases "calculate_loss (fst p1) (fst p2) x y") auto
  from run l0 obtain s where
    s: "search_loop (nat n) st bb1 bb2 x y (initial_state (fst p1) (fst p2) l0 (snd p2)) = Inr s"
    by (cases "search_loop (nat n) st bb1 bb2 x y (initial_state (fst p1) (fst p2) l0 (snd p2))") auto
  from run l0 s have n: "n \<noteq> 0" and res: "res = \<lparr>final_b1 = s_b1 s, final_b2 = s_b2 s, final_loss = s_current_loss s,
                   acceptance_rate = real (s_n_accepted s) / real_of_int n,
                   b1_samples = s_b1_samples s, b2_samples = s_b2_samples s,
                   loss_samples = s_loss_samples s\<rparr>"
    by (auto split: if_splits)
  have i1: "\<forall>v. b1i = Some v \<longrightarrow> fst p1 = v" by (simp add: p1_def)
  have i2: "\<forall>v. b2i = Some v \<longrightarrow> fst p2 = v" by (simp add: p2_def)
  from l0 s n res i1 i2 show ?thesis unfolding x_def y_def by blast
qed

lemma run_simulation_returns:
  assumes "n \<noteq> 0" "n \<le> 0 \<or> 0 \<le> st"
    and "length (case ot of None \<Rightarrow> order_totals self | Some a \<Rightarrow> a)
         = length (case tips of None \<Rightarrow> observed_tips self | Some a \<Rightarrow> a)"
  shows "\<exists>res g. run_simulation self n st b1i b2i bb1 bb2 ot tips = Inr (res, g)"
proof -
  define p1 where "p1 = (case b1i of None \<Rightarrow> rng_uniform 0 10 (rng self) | Some v \<Rightarrow> (v, rng self))"
  define p2 where "p2 = (case b2i of None \<Rightarrow> rng_uniform (5 / 100) (50 / 100) (snd p1)
                          | Some v \<Rightarrow> (v, snd p1))"
  define x where "x = (case ot of None \<Rightarrow> order_totals self | Some a \<Rightarrow> a)"
  define y where "y = (case tips of None \<Rightarrow> observed_tips self | Some a \<Rightarrow> a)"
  have len: "length x = length y" using assms(3) by (simp add: x_def y_def)
  then obtain l0 where l0: "calculate_loss (fst p1) (fst p2) x y = Inr l0"
    by (simp add: calculate_loss_def np_broadcast_def)
  have "\<exists>s. search_loop (nat n) st bb1 bb2 x y (initial_state (fst p1) (fst p2) l0 (snd p2)) = Inr s"
  proof (cases "n \<le> 0")
    case True
    then show ?thesis by simp
  next
    case False
    with assms(2) have "0 \<le> st" by simp
    from search_loop_returns[OF this l0] show ?thesis .
  qed
  then obtain s where
    s: "search_loop (nat n) st bb1 bb2 x y (initial_state (fst p1) (fst p2) l0 (snd p2)) = Inr s"
    by blast
  show ?thesis
    unfolding run_simulation_unfold Let_def
    unfolding p1_def[symmetric]
    unfolding p2_def[symmetric] x_def[symmetric] y_def[symmetric]
    using assms(1) by (simp add: l0 s)
qed

lemma demo_loss0: "calculate_loss 0 0 [1, 2] [1, 2] = Inr 5"
  by (simp add: calculate_loss_def np_broadcast_def np_sum_def power2_eq_square)

lemma demo_step1:
  "search_step (1 / 10) (0, 50) (0, 1) [1, 2] [1, 2] (initial_state 0 0 5 \<lparr>draws = real, drawn = 0\<rparr>)
   = Inr \<lparr>s_b1 = 0, s_b2 = 1 / 10, s_current_loss = 405 / 100, s_n_accepted = 1,
      s_b1_samples = [0, 0], s_b2_samples = [0, 1 / 10], s_loss_samples = [5, 405 / 100],
      s_rng = \<lparr>draws = real, drawn = 2\<rparr>\<rparr>"
  by (simp add: search_step_def propose_def rng_normal_def np_clip_def initial_state_def
        calculate_loss_def np_broadcast_def np_sum_def power2_eq_square)

lemma demo_step2:
  "search_step (1 / 10) (0, 50) (0, 1) [1, 2] [1, 2]
     \<lparr>s_b1 = 0, s_b2 = 1 / 10, s_current_loss = 405 / 100, s_n_accepted = 1,
      s_b1_samples = [0, 0], s_b2_samples = [0, 1 / 10], s_loss_samples = [5, 405 / 100],
      s_rng = \<lparr>draws = real, drawn = 2\<rparr>\<rparr>
   = Inr \<lparr>s_b1 = 1, s_b2 = 4 / 10, s_current_loss = 2 / 10, s_n_accepted = 2,
      s_b1_samples = [0, 0, 1], s_b2_samples = [0, 1 / 10, 4 / 10],
      s_loss_samples = [5, 405 / 100, 2 / 10],
      s_rng = \<lparr>draws = real, drawn = 4\<rparr>\<rparr>"
  by (simp add: search_step_def propose_def rng_normal_def np_clip_def
        calculate_loss_def np_broadcast_def np_sum_def power2_eq_square)

lemma demo_step3:
  "search_step (1 / 10) (0, 50) (0, 1) [1, 2] [1, 2]
     \<lparr>s_b1 = 1, s_b2 = 4 / 10, s_current_loss = 2 / 10, s_n_accepted = 2,
      s_b1_samples = [0, 0, 1], s_b2_samples = [0, 1 / 10, 4 / 10],
      s_loss_samples = [5, 405 / 100, 2 / 10],
      s_rng = \<lparr>draws = real, drawn = 4\<rparr>\<rparr>
   = Inr \<lparr>s_b1 = 1, s_b2 = 4 / 10, s_current_loss = 2 / 10, s_n_accepted = 2,
      s_b1_samples = [0, 0, 1, 1], s_b2_samples = [0, 1 / 10, 4 / 10, 4 / 10],
      s_loss_samples = [5, 405 / 100, 2 / 10, 2 / 10],
      s_rng = \<lparr>draws = real, drawn = 6\<rparr>\<rparr>"
  by (simp add: search_step_def propose_def rng_normal_def np_clip_def
        calculate_loss_def np_broadcast_def np_sum_def power2_eq_square)

lemma demo_loop:
  "search_loop 3 (1 / 10) (0, 50) (0, 1) [1, 2] [1, 2]
      (initial_state 0 0 5 \<lparr>draws = real, drawn = 0\<rparr>)
   = Inr \<lparr>s_b1 = 1, s_b2 = 4 / 10, s_current_loss = 2 / 10, s_n_accepted = 2,
      s_b1_samples = [0, 0, 1, 1], s_b2_samples = [0, 1 / 10, 4 / 10, 4 / 10],
      s_loss_samples = [5, 405 / 100, 2 / 10, 2 / 10],
      s_rng = \<lparr>draws = real, drawn = 6\<rparr>\<rparr>"
  by (simp only: numeral_3_eq_3 search_loop.simps demo_step1 demo_step2 demo_step3 sum.case)

lemma demo_run:
  "run_simulation \<lparr>order_totals = [1, 2], observed_tips = [1, 2],
                    rng = \<lparr>draws = real, drawn = 0\<rparr>\<rparr>
       3 (1 / 10) (Some 0) (Some 0) (0, 50) (0, 1) None None
   = Inr (\<lparr>final_b1 = 1, final_b2 = 4 / 10, final_loss = 2 / 10, acceptance_rate = 2 / 3,
           b1_samples = [0, 0, 1, 1], b2_samples = [0, 1 / 10, 4 / 10, 4 / 10],
           loss_samples = [5, 405 / 100, 2 / 10, 2 / 10]\<rparr>,
          \<lparr>draws = real, drawn = 6\<rparr>)"
proof -
  have n: "nat 3 = 3" by simp
  show ?thesis
    by (simp add: run_simulation_def demo_loss0 n demo_loop)
qed

text \<open>
  C1. In every trajectory that \<open>run_simulation\<close> returns the loss never goes up from
  one entry to the next. The reason is the step: whenever a step returns, its proposal
  is taken (and counted) exactly when the proposal's loss is strictly below the current
  loss, and otherwise the parameters, the loss and the counter stay as they were; a
  proposal with an equal loss is rejected.
\<close>

theorem run_simulation_loss_non_increasing:
  "(run_simulation self n st b1i b2i bb1 bb2 ot tips = Inr (res, g) \<longrightarrow>
      (\<forall>i. Suc i < length (loss_samples res) \<longrightarrow>
            loss_samples res ! Suc i \<le> loss_samples res ! i))
   \<and> (search_step st bb1 bb2 x y s = Inr s' \<longrightarrow>
      (\<exists>b1_new b2_new g' new_loss.
          propose st bb1 bb2 s = Inr (b1_new, b2_new, g')
        \<and> calculate_loss b1_new b2_new x y = Inr new_loss
        \<and> (new_loss < s_current_loss s \<longrightarrow>
              s_b1 s' = b1_new \<and> s_b2 s' = b2_new \<and> s_current_loss s' = new_loss
            \<and> s_n_accepted s' = s_n_accepted s + 1)
        \<and> (\<not> new_loss < s_current_loss s \<longrightarrow>
              s_b1 s' = s_b1 s \<and> s_b2 s' = s_b2 s \<and> s_current_loss s' = s_current_loss s
            \<and> s_n_accepted s' = s_n_accepted s)))"
proof (intro conjI impI allI)
  fix i
  assume run: "run_simulation self n st b1i b2i bb1 bb2 ot tips = Inr (res, g)"
    and i: "Suc i < length (loss_samples res)"
  from run_simulation_InrD[OF run] obtain b1 b2 l0 g0 s x' y' where
    loop: "search_loop (nat n) st bb1 bb2 x' y' (initial_state b1 b2 l0 g0) = Inr s"
    and res: "loss_samples res = s_loss_samples s"
    by force
  have "s_loss_samples (initial_state b1 b2 l0 g0) \<noteq> []
      \<and> last (s_loss_samples (initial_state b1 b2 l0 g0)) = s_current_loss (initial_state b1 b2 l0 g0)
      \<and> sorted_wrt (\<lambda>a b. b \<le> a) (s_loss_samples (initial_state b1 b2 l0 g0))"
    by (simp add: initial_state_def)
  from search_loop_loss_chain[OF loop this]
  have "sorted_wrt (\<lambda>a b. b \<le> a) (loss_samples res)"
    by (simp add: res)
  from sorted_desc_adjacent[OF this i]
  show "loss_samples res ! Suc i \<le> loss_samples res ! i" .
next
  assume "search_step st bb1 bb2 x y s = Inr s'"
  from search_step_InrD[OF this] obtain b1n b2n g' nl where
    "propose st bb1 bb2 s = Inr (b1n, b2n, g')" "calculate_loss b1n b2n x y = Inr nl"
    "s_b1 s' = (if nl < s_current_loss s then b1n else s_b1 s)"
    "s_b2 s' = (if nl < s_current_loss s then b2n else s_b2 s)"
    "s_current_loss s' = (if nl < s_current_loss s then nl else s_current_loss s)"
    "s_n_accepted s' = (if nl < s_current_loss s then Suc (s_n_accepted s) else s_n_accepted s)"
    by blast
  then show "\<exists>b1_new b2_new g' new_loss.
          propose st bb1 bb2 s = Inr (b1_new, b2_new, g')
        \<and> calculate_loss b1_new b2_new x y = Inr new_loss
        \<and> (new_loss < s_current_loss s \<longrightarrow>
              s_b1 s' = b1_new \<and> s_b2 s' = b2_new \<and> s_current_loss s' = new_loss
            \<and> s_n_accepted s' = s_n_accepted s + 1)
        \<and> (\<not> new_loss < s_current_loss s \<longrightarrow>
              s_b1 s' = s_b1 s \<and> s_b2 s' = s_b2 s \<and> s_current_loss s' = s_current_loss s
            \<and> s_n_accepted s' = s_n_accepted s)"
    by (intro exI[of _ b1n] exI[of _ b2n] exI[of _ g'] exI[of _ nl]) simp
qed

theorem run_simulation_loss_non_increasing_witness:
  "run_simulation \<lparr>order_totals = [1, 2], observed_tips = [1, 2],
                    rng = \<lparr>draws = real, drawn = 0\<rparr>\<rparr>
       3 (1 / 10) (Some 0) (Some 0) (0, 50) (0, 1) None None
   = Inr (\<lparr>final_b1 = 1, final_b2 = 4 / 10, final_loss = 2 / 10, acceptance_rate = 2 / 3,
           b1_samples = [0, 0, 1, 1], b2_samples = [0, 1 / 10, 4 / 10, 4 / 10],
           loss_samples = [5, 405 / 100, 2 / 10, 2 / 10]\<rparr>,
          \<lparr>draws = real, drawn = 6\<rparr>)
   \<and> Suc 2 < length [5, 405 / 100, 2 / 10, 2 / 10 :: real]
   \<and> [5, 405 / 100, 2 / 10, 2 / 10 :: real] ! Suc 0 \<le> [5, 405 / 100, 2 / 10, 2 / 10] ! 0
   \<and> [5, 405 / 100, 2 / 10, 2 / 10 :: real] ! Suc 1 \<le> [5, 405 / 100, 2 / 10, 2 / 10] ! 1
   \<and> [5, 405 / 100, 2 / 10, 2 / 10 :: real] ! Suc 2 \<le> [5, 405 / 100, 2 / 10, 2 / 10] ! 2
   \<and> search_step (1 / 10) (0, 50) (0, 1) [1, 2] [1, 2]
        (initial_state 0 0 5 \<lparr>draws = real, drawn = 0\<rparr>)
      = Inr \<lparr>s_b1 = 0, s_b2 = 1 / 10, s_current_loss = 405 / 100, s_n_accepted = 1,
          s_b1_samples = [0, 0], s_b2_samples = [0, 1 / 10], s_loss_samples = [5, 405 / 100],
          s_rng = \<lparr>draws = real, drawn = 2\<rparr>\<rparr>
   \<and> (\<exists>b1_new b2_new g' new_loss.
          propose (1 / 10) (0, 50) (0, 1) (initial_state 0 0 5 \<lparr>draws = real, drawn = 0\<rparr>)
            = Inr (b1_new, b2_new, g')
        \<and> calculate_loss b1_new b2_new [1, 2] [1, 2] = Inr new_loss
        \<and> new_loss < 5 \<and> new_loss = 405 / 100)"
proof -
  note main = run_simulation_loss_non_increasing
    [of "\<lparr>order_totals = [1, 2], observed_tips = [1, 2], rng = \<lparr>draws = real, drawn = 0\<rparr>\<rparr>"
        3 "1 / 10" "Some 0" "Some 0" "(0, 50)" "(0, 1)" None None
        "\<lparr>final_b1 = 1, final_b2 = 4 / 10, final_loss = 2 / 10, acceptance_rate = 2 / 3,
           b1_samples = [0, 0, 1, 1], b2_samples = [0, 1 / 10, 4 / 10, 4 / 10],
           loss_samples = [5, 405 / 100, 2 / 10, 2 / 10]\<rparr>"
        "\<lparr>draws = real, drawn = 6\<rparr>"
        "[1, 2]" "[1, 2]" "initial_state 0 0 5 \<lparr>draws = real, drawn = 0\<rparr>"
        "\<lparr>s_b1 = 0, s_b2 = 1 / 10, s_current_loss = 405 / 100, s_n_accepted = 1,
          s_b1_samples = [0, 0], s_b2_samples = [0, 1 / 10], s_loss_samples = [5, 405 / 100],
          s_rng = \<lparr>draws = real, drawn = 2\<rparr>\<rparr>"]
  from main demo_run have a: "\<forall>i. Suc i < length [5, 405 / 100, 2 / 10, 2 / 10 :: real] \<longrightarrow>
         [5, 405 / 100, 2 / 10, 2 / 10 :: real] ! Suc i \<le> [5, 405 / 100, 2 / 10, 2 / 10] ! i"
    by simp
  from main demo_step1 obtain b1_new b2_new g' new_loss where
    p: "propose (1 / 10) (0, 50) (0, 1) (initial_state 0 0 5 \<lparr>draws = real, drawn = 0\<rparr>)
            = Inr (b1_new, b2_new, g')"
    and c: "calculate_loss b1_new b2_new [1, 2] [1, 2] = Inr new_loss"
    and acc: "new_loss < s_current_loss (initial_state 0 0 5 \<lparr>draws = real, drawn = 0\<rparr>) \<longrightarrow>
         405 / 100 = new_loss"
    and rej: "\<not> new_loss < s_current_loss (initial_state 0 0 5 \<lparr>draws = real, drawn = 0\<rparr>) \<longrightarrow>
         405 / 100 = s_current_loss (initial_state 0 0 5 \<lparr>draws = real, drawn = 0\<rparr>)"
    by auto
  have five: "s_current_loss (initial_state 0 0 5 \<lparr>draws = real, drawn = 0\<rparr>) = 5"
    by (simp add: initial_state_def)
  from acc rej have "new_loss < 5 \<and> new_loss = 405 / 100"
    unfolding five by (cases "new_loss < 5") auto
  moreover have "Suc 2 < length [5, 405 / 100, 2 / 10, 2 / 10 :: real]" by simp
  moreover from a have
    "[5, 405 / 100, 2 / 10, 2 / 10 :: real] ! Suc 0 \<le> [5, 405 / 100, 2 / 10, 2 / 10] ! 0"
    "[5, 405 / 100, 2 / 10, 2 / 10 :: real] ! Suc 1 \<le> [5, 405 / 100, 2 / 10, 2 / 10] ! 1"
    "[5, 405 / 100, 2 / 10, 2 / 10 :: real] ! Suc 2 \<le> [5, 405 / 100, 2 / 10, 2 / 10] ! 2"
    by simp_all
  ultimately show ?thesis using p c demo_run demo_step1 by blast
qed

text \<open>
  C2. For \<open>n_samples \<ge> 1\<close> each of the three returned trajectories has
  \<open>n_samples + 1\<close> entries, whatever was accepted; and the call does return when
  the step size is not negative and the two data arrays have the same length.
\<close>

theorem run_simulation_trajectory_length:
  "(run_simulation self n st b1i b2i bb1 bb2 ot tips = Inr (res, g) \<longrightarrow> 1 \<le> n \<longrightarrow>
      int (length (b1_samples res)) = n + 1
    \<and> int (length (b2_samples res)) = n + 1
    \<and> int (length (loss_samples res)) = n + 1)
   \<and> (1 \<le> n \<longrightarrow> 0 \<le> st \<longrightarrow>
        length (case ot of None \<Rightarrow> order_totals self | Some a \<Rightarrow> a)
          = length (case tips of None \<Rightarrow> observed_tips self | Some a \<Rightarrow> a) \<longrightarrow>
        (\<exists>res' g'. run_simulation self n st b1i b2i bb1 bb2 ot tips = Inr (res', g')))"
proof (intro conjI impI)
  assume run: "run_simulation self n st b1i b2i bb1 bb2 ot tips = Inr (res, g)"
    and n: "1 \<le> n"
  from run_simulation_InrD[OF run] obtain b1 b2 l0 g0 s x' y' where
    loop: "search_loop (nat n) st bb1 bb2 x' y' (initial_state b1 b2 l0 g0) = Inr s"
    and res: "b1_samples res = s_b1_samples s" "b2_samples res = s_b2_samples s"
      "loss_samples res = s_loss_samples s"
    by force
  from search_loop_length[OF loop] have
    "length (s_b1_samples s) = Suc (nat n)" "length (s_b2_samples s) = Suc (nat n)"
    "length (s_loss_samples s) = Suc (nat n)"
    by (simp_all add: initial_state_def)
  with n res show "int (length (b1_samples res)) = n + 1"
    "int (length (b2_samples res)) = n + 1" "int (length (loss_samples res)) = n + 1"
    by simp_all
next
  assume "1 \<le> n" "0 \<le> st"
    "length (case ot of None \<Rightarrow> order_totals self | Some a \<Rightarrow> a)
          = length (case tips of None \<Rightarrow> observed_tips self | Some a \<Rightarrow> a)"
  then show "\<exists>res' g'. run_simulation self n st b1i b2i bb1 bb2 ot tips = Inr (res', g')"
    by (intro run_simulation_returns) simp_all
qed

theorem run_simulation_trajectory_length_witness:
  "run_simulation \<lparr>order_totals = [1, 2], observed_tips = [1, 2],
                    rng = \<lparr>draws = real, drawn = 0\<rparr>\<rparr>
       3 (1 / 10) (Some 0) (Some 0) (0, 50) (0, 1) None None
   = Inr (\<lparr>final_b1 = 1, final_b2 = 4 / 10, final_loss = 2 / 10, acceptance_rate = 2 / 3,
           b1_samples = [0, 0, 1, 1], b2_samples = [0, 1 / 10, 4 / 10, 4 / 10],
           loss_samples = [5, 405 / 100, 2 / 10, 2 / 10]\<rparr>,
          \<lparr>draws = real, drawn = 6\<rparr>)
   \<and> (1::int) \<le> 3 \<and> (0::real) \<le> 1 / 10
   \<and> length [1, 2 :: real] = length [1, 2 :: real]
   \<and> int (length [0, 0, 1, 1 :: real]) = 3 + 1
   \<and> int (length [0, 1 / 10, 4 / 10, 4 / 10 :: real]) = 3 + 1
   \<and> int (length [5, 405 / 100, 2 / 10, 2 / 10 :: real]) = 3 + 1"
  using run_simulation_trajectory_length
    [of "\<lparr>order_totals = [1, 2], observed_tips = [1, 2], rng = \<lparr>draws = real, drawn = 0\<rparr>\<rparr>"
        3 "1 / 10" "Some 0" "Some 0" "(0, 50)" "(0, 1)" None None
        "\<lparr>final_b1 = 1, final_b2 = 4 / 10, final_loss = 2 / 10, acceptance_rate = 2 / 3,
           b1_samples = [0, 0, 1, 1], b2_samples = [0, 1 / 10, 4 / 10, 4 / 10],
           loss_samples = [5, 405 / 100, 2 / 10, 2 / 10]\<rparr>"
        "\<lparr>draws = real, drawn = 6\<rparr>"]
    demo_run
  by simp

text \<open>
  C8. With \<open>n_samples = 0\<close> the call does not yield a trajectory: on the dataset of
  the worked example it ends in \<open>ZeroDivisionError\<close>.
\<close>

theorem run_simulation_zero_samples_counterexample:
  "run_simulation \<lparr>order_totals = [3, 10, 25], observed_tips = [1, 2, 4],
                    rng = \<lparr>draws = real, drawn = 0\<rparr>\<rparr>
       0 (1 / 10000) (Some (5 / 10)) (Some (15 / 100)) (0, 50) (0, 1) None None
   = Inl ZeroDivisionError"
  by (simp add: run_simulation_def calculate_loss_def np_broadcast_def)

text \<open>
  C8, as the code has it. With \<open>n_samples = 0\<close> no call returns a result. When the
  two data arrays have the same length the outcome is \<open>ZeroDivisionError\<close>, raised
  by \<open>n_accepted / n_samples\<close>; at that point the loop has run zero times and the
  loss trajectory built so far is the initial loss alone.
\<close>

theorem run_simulation_zero_samples:
  "isl (run_simulation self 0 st b1i b2i bb1 bb2 ot tips)
   \<and> (length (case ot of None \<Rightarrow> order_totals self | Some a \<Rightarrow> a)
          = length (case tips of None \<Rightarrow> observed_tips self | Some a \<Rightarrow> a) \<longrightarrow>
        run_simulation self 0 st b1i b2i bb1 bb2 ot tips = Inl ZeroDivisionError)
   \<and> s_loss_samples (initial_state b1 b2 l gen) = [l]
   \<and> search_loop (nat 0) st bb1 bb2 x y (initial_state b1 b2 l gen)
        = Inr (initial_state b1 b2 l gen)"
proof (intro conjI impI)
  show "isl (run_simulation self 0 st b1i b2i bb1 bb2 ot tips)"
  proof (cases "run_simulation self 0 st b1i b2i bb1 bb2 ot tips")
    case (Inl e)
    then show ?thesis by simp
  next
    case (Inr r)
    then have "run_simulation self 0 st b1i b2i bb1 bb2 ot tips = Inr (fst r, snd r)" by simp
    from run_simulation_InrD[OF this] show ?thesis by blast
  qed
next
  define p1 where "p1 = (case b1i of None \<Rightarrow> rng_uniform 0 10 (rng self) | Some v \<Rightarrow> (v, rng self))"
  define p2 where "p2 = (case b2i of None \<Rightarrow> rng_uniform (5 / 100) (50 / 100) (snd p1)
                          | Some v \<Rightarrow> (v, snd p1))"
  define x' where "x' = (case ot of None \<Rightarrow> order_totals self | Some a \<Rightarrow> a)"
  define y' where "y' = (case tips of None \<Rightarrow> observed_tips self | Some a \<Rightarrow> a)"
  assume "length (case ot of None \<Rightarrow> order_totals self | Some a \<Rightarrow> a)
          = length (case tips of None \<Rightarrow> observed_tips self | Some a \<Rightarrow> a)"
  then have "length x' = length y'" by (simp add: x'_def y'_def)
  then obtain l0 where l0: "calculate_loss (fst p1) (fst p2) x' y' = Inr l0"
    by (simp add: calculate_loss_def np_broadcast_def)
  show "run_simulation self 0 st b1i b2i bb1 bb2 ot tips = Inl ZeroDivisionError"
    unfolding run_simulation_unfold Let_def
    unfolding p1_def[symmetric]
    unfolding p2_def[symmetric] x'_def[symmetric] y'_def[symmetric]
    by (simp add: l0)
qed (simp_all add: initial_state_def)

theorem run_simulation_zero_samples_witness:
  "length [3, 10, 25 :: real] = length [1, 2, 4 :: real]
   \<and> run_simulation \<lparr>order_totals = [3, 10, 25], observed_tips = [1, 2, 4],
                    rng = \<lparr>draws = real, drawn = 0\<rparr>\<rparr>
       0 (1 / 10000) (Some (5 / 10)) (Some (15 / 100)) (0, 50) (0, 1) None None
     = Inl ZeroDivisionError
   \<and> s_loss_samples (initial_state (5 / 10) (15 / 100) (65 / 1000) \<lparr>draws = real, drawn = 0\<rparr>)
     = [65 / 1000]"
  using run_simulation_zero_samples
    [of "\<lparr>order_totals = [3, 10, 25], observed_tips = [1, 2, 4], rng = \<lparr>draws = real, drawn = 0\<rparr>\<rparr>"
        "1 / 10000" "Some (5 / 10)" "Some (15 / 100)" "(0, 50)" "(0, 1)" None None
        "5 / 10" "15 / 100" "65 / 1000" "\<lparr>draws = real, drawn = 0\<rparr>"]
  by simp

lemma np_clip_in_bounds: "lo \<le> hi \<Longrightarrow> lo \<le> np_clip v lo hi \<and> np_clip v lo hi \<le> hi"
  by (auto simp: np_clip_def)

lemma entries_step:
  fixes P :: "real \<Rightarrow> real \<Rightarrow> real \<Rightarrow> bool"
  assumes inv: "P (s_b1 t) (s_b2 t) (s_current_loss t)
      \<and> length (s_b1_samples t) = length (s_loss_samples t)
      \<and> length (s_b2_samples t) = length (s_loss_samples t)
      \<and> (\<forall>i < length (s_loss_samples t).
            P (s_b1_samples t ! i) (s_b2_samples t ! i) (s_loss_samples t ! i))"
    and step: "search_step st bb1 bb2 x y t = Inr t'"
    and keep: "P (s_b1 t) (s_b2 t) (s_current_loss t) \<Longrightarrow> P (s_b1 t') (s_b2 t') (s_current_loss t')"
  shows "P (s_b1 t') (s_b2 t') (s_current_loss t')
      \<and> length (s_b1_samples t') = length (s_loss_samples t')
      \<and> length (s_b2_samples t') = length (s_loss_samples t')
      \<and> (\<forall>i < length (s_loss_samples t').
            P (s_b1_samples t' ! i) (s_b2_samples t' ! i) (s_loss_samples t' ! i))"
proof -
  from search_step_InrD[OF step] have
    a: "s_b1_samples t' = s_b1_samples t @ [s_b1 t']"
    and b: "s_b2_samples t' = s_b2_samples t @ [s_b2 t']"
    and c: "s_loss_samples t' = s_loss_samples t @ [s_current_loss t']"
    by blast+
  from inv keep have p: "P (s_b1 t') (s_b2 t') (s_current_loss t')" by blast
  have "P (s_b1_samples t' ! i) (s_b2_samples t' ! i) (s_loss_samples t' ! i)"
    if "i < length (s_loss_samples t')" for i
  proof (cases "i < length (s_loss_samples t)")
    case True
    with inv show ?thesis by (simp add: a b c nth_append)
  next
    case False
    with that have "i = length (s_loss_samples t)" by (simp add: c)
    with inv p show ?thesis by (simp add: a b c nth_append)
  qed
  with p inv show ?thesis by (simp add: a b c)
qed

lemma clipped_or_initial_step:
  assumes p: "(s_b1 t = v1 \<and> s_b2 t = v2 \<and> s_current_loss t = l0)
       \<or> (s_current_loss t < l0 \<and> (\<exists>z. s_b1 t = np_clip z (fst bb1) (snd bb1))
            \<and> (\<exists>z. s_b2 t = np_clip z (fst bb2) (snd bb2)))"
    and step: "search_step st bb1 bb2 x y t = Inr t'"
  shows "(s_b1 t' = v1 \<and> s_b2 t' = v2 \<and> s_current_loss t' = l0)
       \<or> (s_current_loss t' < l0 \<and> (\<exists>z. s_b1 t' = np_clip z (fst bb1) (snd bb1))
            \<and> (\<exists>z. s_b2 t' = np_clip z (fst bb2) (snd bb2)))"
proof -
  from search_step_InrD[OF step] obtain b1n b2n g nl where
    pr: "propose st bb1 bb2 t = Inr (b1n, b2n, g)"
    and e1: "s_b1 t' = (if nl < s_current_loss t then b1n else s_b1 t)"
    and e2: "s_b2 t' = (if nl < s_current_loss t then b2n else s_b2 t)"
    and e3: "s_current_loss t' = (if nl < s_current_loss t then nl else s_current_loss t)"
    by blast
  from propose_InrD[OF pr] obtain z1 z2 where
    z: "b1n = np_clip z1 (fst bb1) (snd bb1)" "b2n = np_clip z2 (fst bb2) (snd bb2)"
    by blast
  show ?thesis
  proof (cases "nl < s_current_loss t")
    case True
    from p have "s_current_loss t \<le> l0" by auto
    with True have "s_current_loss t' < l0" by (simp add: e3)
    with True z show ?thesis by (auto simp: e1 e2)
  next
    case False
    with p show ?thesis by (simp add: e1 e2 e3)
  qed
qed

lemma first_entries_step:
  assumes "s_b1_samples t \<noteq> [] \<and> s_b1_samples t ! 0 = v1
         \<and> s_b2_samples t \<noteq> [] \<and> s_b2_samples t ! 0 = v2
         \<and> s_loss_samples t \<noteq> [] \<and> s_loss_samples t ! 0 = l0"
    and "search_step st bb1 bb2 x y t = Inr t'"
  shows "s_b1_samples t' \<noteq> [] \<and> s_b1_samples t' ! 0 = v1
         \<and> s_b2_samples t' \<noteq> [] \<and> s_b2_samples t' ! 0 = v2
         \<and> s_loss_samples t' \<noteq> [] \<and> s_loss_samples t' ! 0 = l0"
  using search_step_InrD[OF assms(2)] assms(1) by (auto simp: nth_append)

text \<open>
  C10. The initial parameters given by the caller are recorded as they are, in or out
  of the bounds: entry 0 is the initial pair, and so is every entry whose loss still
  equals the initial loss (those before the first accepted proposal, since an accepted
  proposal lowers the loss strictly). Every entry that differs from the initial pair is
  a pair of clipped proposals, hence inside \<open>[min, max]\<close> for bounds given as
  \<open>(min, max)\<close> with \<open>min \<le> max\<close>.
\<close>

theorem run_simulation_initial_not_clipped:
  "run_simulation self n st (Some v1) (Some v2) bb1 bb2 ot tips = Inr (res, g) \<longrightarrow>
     b1_samples res ! 0 = v1 \<and> b2_samples res ! 0 = v2
   \<and> length (b1_samples res) = length (loss_samples res)
   \<and> length (b2_samples res) = length (loss_samples res)
   \<and> (\<forall>i < length (loss_samples res).
        (loss_samples res ! i = loss_samples res ! 0 \<longrightarrow>
           b1_samples res ! i = v1 \<and> b2_samples res ! i = v2)
      \<and> (b1_samples res ! i \<noteq> v1 \<or> b2_samples res ! i \<noteq> v2 \<longrightarrow>
           (\<exists>z. b1_samples res ! i = np_clip z (fst bb1) (snd bb1))
         \<and> (\<exists>z. b2_samples res ! i = np_clip z (fst bb2) (snd bb2))
         \<and> (fst bb1 \<le> snd bb1 \<longrightarrow>
               fst bb1 \<le> b1_samples res ! i \<and> b1_samples res ! i \<le> snd bb1)
         \<and> (fst bb2 \<le> snd bb2 \<longrightarrow>
               fst bb2 \<le> b2_samples res ! i \<and> b2_samples res ! i \<le> snd bb2)))"
proof
  assume run: "run_simulation self n st (Some v1) (Some v2) bb1 bb2 ot tips = Inr (res, g)"
  from run_simulation_InrD[OF run] obtain l0 g0 s x y where
    loop: "search_loop (nat n) st bb1 bb2 x y (initial_state v1 v2 l0 g0) = Inr s"
    and res: "b1_samples res = s_b1_samples s" "b2_samples res = s_b2_samples s"
      "loss_samples res = s_loss_samples s"
    by force
  define P where "P = (\<lambda>b1 b2 l. (b1 = v1 \<and> b2 = v2 \<and> l = l0)
       \<or> (l < l0 \<and> (\<exists>z. b1 = np_clip z (fst bb1) (snd bb1))
            \<and> (\<exists>z. b2 = np_clip z (fst bb2) (snd bb2))))"
  define I where "I = (\<lambda>t::search_state. P (s_b1 t) (s_b2 t) (s_current_loss t)
      \<and> length (s_b1_samples t) = length (s_loss_samples t)
      \<and> length (s_b2_samples t) = length (s_loss_samples t)
      \<and> (\<forall>i < length (s_loss_samples t).
            P (s_b1_samples t ! i) (s_b2_samples t ! i) (s_loss_samples t ! i)))"
  have I0: "I (initial_state v1 v2 l0 g0)"
    by (simp add: I_def P_def initial_state_def)
  have Istep: "I t'" if "I t" "search_step st bb1 bb2 x y t = Inr t'" for t t'
  proof -
    have "P (s_b1 t') (s_b2 t') (s_current_loss t')"
      using clipped_or_initial_step[OF _ that(2), of v1 v2 l0] that(1)
      unfolding I_def P_def by blast
    with entries_step[of P t st bb1 bb2 x y t'] that show ?thesis
      unfolding I_def by blast
  qed
  from search_loop_invariant[of "nat n" st bb1 bb2 x y _ s I, OF loop I0 Istep]
  have Is: "I s" .
  define F where "F = (\<lambda>t::search_state. s_b1_samples t \<noteq> [] \<and> s_b1_samples t ! 0 = v1
         \<and> s_b2_samples t \<noteq> [] \<and> s_b2_samples t ! 0 = v2
         \<and> s_loss_samples t \<noteq> [] \<and> s_loss_samples t ! 0 = l0)"
  have F0: "F (initial_state v1 v2 l0 g0)" by (simp add: F_def initial_state_def)
  have Fstep: "F t'" if "F t" "search_step st bb1 bb2 x y t = Inr t'" for t t'
    using first_entries_step[of t v1 v2 l0 st bb1 bb2 x y t'] that unfolding F_def by blast
  from search_loop_invariant[of "nat n" st bb1 bb2 x y _ s F, OF loop F0 Fstep]
  have Fs: "F s" .
  have entry: "(loss_samples res ! i = loss_samples res ! 0 \<longrightarrow>
           b1_samples res ! i = v1 \<and> b2_samples res ! i = v2)
      \<and> (b1_samples res ! i \<noteq> v1 \<or> b2_samples res ! i \<noteq> v2 \<longrightarrow>
           (\<exists>z. b1_samples res ! i = np_clip z (fst bb1) (snd bb1))
         \<and> (\<exists>z. b2_samples res ! i = np_clip z (fst bb2) (snd bb2))
         \<and> (fst bb1 \<le> snd bb1 \<longrightarrow>
               fst bb1 \<le> b1_samples res ! i \<and> b1_samples res ! i \<le> snd bb1)
         \<and> (fst bb2 \<le> snd bb2 \<longrightarrow>
               fst bb2 \<le> b2_samples res ! i \<and> b2_samples res ! i \<le> snd bb2))"
    if i: "i < length (loss_samples res)" for i
  proof -
    from Is i have p: "P (b1_samples res ! i) (b2_samples res ! i) (loss_samples res ! i)"
      by (simp add: I_def res)
    from Fs have z: "loss_samples res ! 0 = l0" by (simp add: F_def res)
    show ?thesis
    proof (cases "b1_samples res ! i = v1 \<and> b2_samples res ! i = v2")
      case True
      then show ?thesis by simp
    next
      case False
      with p have lt: "loss_samples res ! i < l0"
        and c1: "\<exists>z. b1_samples res ! i = np_clip z (fst bb1) (snd bb1)"
        and c2: "\<exists>z. b2_samples res ! i = np_clip z (fst bb2) (snd bb2)"
        unfolding P_def by blast+
      from c1 have b1: "fst bb1 \<le> snd bb1 \<longrightarrow>
               fst bb1 \<le> b1_samples res ! i \<and> b1_samples res ! i \<le> snd bb1"
        using np_clip_in_bounds by metis
      from c2 have b2: "fst bb2 \<le> snd bb2 \<longrightarrow>
               fst bb2 \<le> b2_samples res ! i \<and> b2_samples res ! i \<le> snd bb2"
        using np_clip_in_bounds by metis
      from lt z c1 c2 b1 b2 show ?thesis by simp
    qed
  qed
  from Fs have "b1_samples res ! 0 = v1" "b2_samples res ! 0 = v2" by (simp_all add: F_def res)
  moreover from Is have "length (b1_samples res) = length (loss_samples res)"
    "length (b2_samples res) = length (loss_samples res)" by (simp_all add: I_def res)
  ultimately show "b1_samples res ! 0 = v1 \<and> b2_samples res ! 0 = v2
   \<and> length (b1_samples res) = length (loss_samples res)
   \<and> length (b2_samples res) = length (loss_samples res)
   \<and> (\<forall>i < length (loss_samples res).
        (loss_samples res ! i = loss_samples res ! 0 \<longrightarrow>
           b1_samples res ! i = v1 \<and> b2_samples res ! i = v2)
      \<and> (b1_samples res ! i \<noteq> v1 \<or> b2_samples res ! i \<noteq> v2 \<longrightarrow>
           (\<exists>z. b1_samples res ! i = np_clip z (fst bb1) (snd bb1))
         \<and> (\<exists>z. b2_samples res ! i = np_clip z (fst bb2) (snd bb2))
         \<and> (fst bb1 \<le> snd bb1 \<longrightarrow>
               fst bb1 \<le> b1_samples res ! i \<and> b1_samples res ! i \<le> snd bb1)
         \<and> (fst bb2 \<le> snd bb2 \<longrightarrow>
               fst bb2 \<le> b2_samples res ! i \<and> b2_samples res ! i \<le> snd bb2)))"
    using entry by blast
qed

lemma search_loop_two:
  "search_loop 2 st bb1 bb2 x y s =
     (case search_step st bb1 bb2 x y s of
        Inl e \<Rightarrow> Inl e
      | Inr s' \<Rightarrow> (case search_step st bb1 bb2 x y s' of
                    Inl e \<Rightarrow> Inl e
                  | Inr s'' \<Rightarrow> Inr s''))"
  by (simp add: numeral_2_eq_2 split: sum.splits)

lemma outside_loss0: "calculate_loss (8 / 5) 2 [1, 2] [3, 5] = Inr (18 / 25)"
  by (simp add: calculate_loss_def np_broadcast_def np_sum_def power2_eq_square)

lemma outside_step1:
  "search_step (1 / 10) (0, 50) (0, 1) [1, 2] [3, 5]
     (initial_state (8 / 5) 2 (18 / 25) \<lparr>draws = real, drawn = 0\<rparr>)
   = Inr \<lparr>s_b1 = 8 / 5, s_b2 = 2, s_current_loss = 18 / 25, s_n_accepted = 0,
      s_b1_samples = [8 / 5, 8 / 5], s_b2_samples = [2, 2],
      s_loss_samples = [18 / 25, 18 / 25],
      s_rng = \<lparr>draws = real, drawn = 2\<rparr>\<rparr>"
  by (simp add: search_step_def propose_def rng_normal_def np_clip_def initial_state_def
        calculate_loss_def np_broadcast_def np_sum_def power2_eq_square)

lemma outside_step2:
  "search_step (1 / 10) (0, 50) (0, 1) [1, 2] [3, 5]
     \<lparr>s_b1 = 8 / 5, s_b2 = 2, s_current_loss = 18 / 25, s_n_accepted = 0,
      s_b1_samples = [8 / 5, 8 / 5], s_b2_samples = [2, 2],
      s_loss_samples = [18 / 25, 18 / 25],
      s_rng = \<lparr>draws = real, drawn = 2\<rparr>\<rparr>
   = Inr \<lparr>s_b1 = 13 / 5, s_b2 = 1, s_current_loss = 13 / 25, s_n_accepted = 1,
      s_b1_samples = [8 / 5, 8 / 5, 13 / 5], s_b2_samples = [2, 2, 1],
      s_loss_samples = [18 / 25, 18 / 25, 13 / 25],
      s_rng = \<lparr>draws = real, drawn = 4\<rparr>\<rparr>"
  by (simp add: search_step_def propose_def rng_normal_def np_clip_def
        calculate_loss_def np_broadcast_def np_sum_def power2_eq_square)

lemma outside_run:
  "run_simulation \<lparr>order_totals = [1, 2], observed_tips = [3, 5],
                    rng = \<lparr>draws = real, drawn = 0\<rparr>\<rparr>
       2 (1 / 10) (Some (8 / 5)) (Some 2) (0, 50) (0, 1) None None
   = Inr (\<lparr>final_b1 = 13 / 5, final_b2 = 1, final_loss = 13 / 25, acceptance_rate = 1 / 2,
           b1_samples = [8 / 5, 8 / 5, 13 / 5], b2_samples = [2, 2, 1],
           loss_samples = [18 / 25, 18 / 25, 13 / 25]\<rparr>,
          \<lparr>draws = real, drawn = 4\<rparr>)"
proof -
  have loop: "search_loop 2 (1 / 10) (0, 50) (0, 1) [1, 2] [3, 5]
      (initial_state (8 / 5) 2 (18 / 25) \<lparr>draws = real, drawn = 0\<rparr>)
    = Inr \<lparr>s_b1 = 13 / 5, s_b2 = 1, s_current_loss = 13 / 25, s_n_accepted = 1,
      s_b1_samples = [8 / 5, 8 / 5, 13 / 5], s_b2_samples = [2, 2, 1],
      s_loss_samples = [18 / 25, 18 / 25, 13 / 25],
      s_rng = \<lparr>draws = real, drawn = 4\<rparr>\<rparr>"
    by (simp only: search_loop_two outside_step1 outside_step2 sum.case)
  show ?thesis
    by (simp add: run_simulation_def outside_loss0 loop)
qed

theorem run_simulation_initial_not_clipped_witness:
  "run_simulation \<lparr>order_totals = [1, 2], observed_tips = [3, 5],
                    rng = \<lparr>draws = real, drawn = 0\<rparr>\<rparr>
       2 (1 / 10) (Some (8 / 5)) (Some 2) (0, 50) (0, 1) None None
   = Inr (\<lparr>final_b1 = 13 / 5, final_b2 = 1, final_loss = 13 / 25, acceptance_rate = 1 / 2,
           b1_samples = [8 / 5, 8 / 5, 13 / 5], b2_samples = [2, 2, 1],
           loss_samples = [18 / 25, 18 / 25, 13 / 25]\<rparr>,
          \<lparr>draws = real, drawn = 4\<rparr>)
   \<and> \<not> (2::real) \<le> 1
   \<and> [8 / 5, 8 / 5, 13 / 5 :: real] ! 0 = 8 / 5 \<and> [2, 2, 1 :: real] ! 0 = 2
   \<and> [18 / 25, 18 / 25, 13 / 25 :: real] ! 1 = [18 / 25, 18 / 25, 13 / 25] ! 0
   \<and> [8 / 5, 8 / 5, 13 / 5 :: real] ! 1 = 8 / 5 \<and> [2, 2, 1 :: real] ! 1 = 2
   \<and> [8 / 5, 8 / 5, 13 / 5 :: real] ! 2 \<noteq> 8 / 5
   \<and> (0::real) \<le> 50 \<and> (0::real) \<le> 1
   \<and> 0 \<le> [8 / 5, 8 / 5, 13 / 5 :: real] ! 2 \<and> [8 / 5, 8 / 5, 13 / 5 :: real] ! 2 \<le> 50
   \<and> 0 \<le> [2, 2, 1 :: real] ! 2 \<and> [2, 2, 1 :: real] ! 2 \<le> 1"
  using run_simulation_initial_not_clipped
    [of "\<lparr>order_totals = [1, 2], observed_tips = [3, 5], rng = \<lparr>draws = real, drawn = 0\<rparr>\<rparr>"
        2 "1 / 10" "8 / 5" 2 "(0, 50)" "(0, 1)" None None
        "\<lparr>final_b1 = 13 / 5, final_b2 = 1, final_loss = 13 / 25, acceptance_rate = 1 / 2,
           b1_samples = [8 / 5, 8 / 5, 13 / 5], b2_samples = [2, 2, 1],
           loss_samples = [18 / 25, 18 / 25, 13 / 25]\<rparr>"
        "\<lparr>draws = real, drawn = 4\<rparr>"]
    outside_run
  by simp

section \<open>Properties of the path layer\<close>

lemma slice_step_length: "length (slice_step s xs) = (length xs + s - 1) div s"
  by (simp add: slice_step_def)

lemma slice_step_nth:
  "k < (length xs + s - 1) div s \<Longrightarrow> slice_step s xs ! k = xs ! (k * s)"
  by (simp add: slice_step_def)

lemma slice_index_in_range:
  assumes "0 < s" "k < (L + s - 1) div s"
  shows "k * s < (L :: nat)"
proof -
  from assms(2) have "Suc k \<le> (L + s - 1) div s" by simp
  with assms(1) have "Suc k * s \<le> L + s - 1"
    by (simp add: less_eq_div_iff_mult_less_eq)
  with assms(1) show ?thesis by simp
qed

lemma stride_positive: "0 < max 1 (L div 1000 :: nat)"
  by simp

lemma slice_count_bound:
  fixes L :: nat
  shows "(L + max 1 (L div 1000) - 1) div max 1 (L div 1000) \<le> 1999"
proof (cases "L < 1000")
  case True
  then show ?thesis by simp
next
  case False
  define s where "s = L div 1000"
  from False have s: "1 \<le> s" unfolding s_def by simp
  have "L < 1000 * s + 1000" unfolding s_def by simp
  with s have "L + s - 1 < 2000 * s" by simp
  with s have "(L + s - 1) div s < 2000"
    by (simp add: div_less_iff_less_mult)
  with s show ?thesis unfolding s_def[symmetric] by (simp add: max_def)
qed

lemma slice_count_small:
  fixes L :: nat
  shows "L \<le> 1000 \<Longrightarrow> (L + max 1 (L div 1000) - 1) div max 1 (L div 1000) = L"
  by (cases "L = 1000") simp_all

text \<open>
  C4. The path is not always within 1000 points: for a trajectory of 1001 entries the
  stride is \<open>max(1, 1001 // 1000) = 1\<close> and the path keeps all 1001 of them.
\<close>

theorem add_optimization_trace_counterexample:
  "\<not> isl (add_optimization_trace [] (replicate 1001 0) (replicate 1001 0) (replicate 1001 0))
   \<and> length (trace_x (hd (projr (add_optimization_trace []
          (replicate 1001 0) (replicate 1001 0) (replicate 1001 0))))) = 1001
   \<and> \<not> (1001 :: nat) \<le> 1000"
  by (simp add: add_optimization_trace_def Let_def slice_step_def np_linspace_def)

lemma linspace_unit_returns: "\<exists>colors. np_linspace 0 1 (int n) = Inr colors"
  by (simp add: np_linspace_def)

text \<open>
  C4, as the code has it. For a trajectory of \<open>L \<ge> 1\<close> entries the path is the
  trajectory taken with the uniform stride \<open>max(1, L // 1000)\<close>: its \<open>k\<close>-th point
  is entry \<open>k * stride\<close> of the trajectory, so no point is reordered, and it has
  \<open>ceil(L / stride)\<close> points. That is at most 1999 points, all \<open>L\<close> of them when
  \<open>L \<le> 1000\<close>, and for \<open>L = 5000\<close> the stride is 5 and the path has 1000
  points. The first and the last entry of the trajectory are added as the start and
  end markers whatever the stride.
\<close>

theorem add_optimization_trace_subsample:
  "length bias_samples = L \<and> length slope_samples = L \<and> length ls = L \<and> 1 \<le> L \<longrightarrow>
     (\<exists>colors.
        add_optimization_trace fig bias_samples slope_samples ls =
          Inr (fig @
            [\<lparr>trace_name = ''Optimization Path'',
              trace_x = slice_step (max 1 (L div 1000)) bias_samples,
              trace_y = slice_step (max 1 (L div 1000)) slope_samples,
              trace_z = slice_step (max 1 (L div 1000)) ls,
              trace_color = Scale colors\<rparr>,
             \<lparr>trace_name = ''Start Point'', trace_x = [bias_samples ! 0],
              trace_y = [slope_samples ! 0], trace_z = [ls ! 0],
              trace_color = Named ''red''\<rparr>,
             \<lparr>trace_name = ''End Point'', trace_x = [bias_samples ! (L - 1)],
              trace_y = [slope_samples ! (L - 1)], trace_z = [ls ! (L - 1)],
              trace_color = Named ''blue''\<rparr>]))
   \<and> length (slice_step (max 1 (L div 1000)) bias_samples)
        = (L + max 1 (L div 1000) - 1) div max 1 (L div 1000)
   \<and> length (slice_step (max 1 (L div 1000)) slope_samples)
        = length (slice_step (max 1 (L div 1000)) bias_samples)
   \<and> length (slice_step (max 1 (L div 1000)) ls)
        = length (slice_step (max 1 (L div 1000)) bias_samples)
   \<and> (\<forall>k < length (slice_step (max 1 (L div 1000)) bias_samples).
          k * max 1 (L div 1000) < L
        \<and> slice_step (max 1 (L div 1000)) bias_samples ! k
            = bias_samples ! (k * max 1 (L div 1000))
        \<and> slice_step (max 1 (L div 1000)) slope_samples ! k
            = slope_samples ! (k * max 1 (L div 1000))
        \<and> slice_step (max 1 (L div 1000)) ls ! k = ls ! (k * max 1 (L div 1000))
        \<and> (\<forall>j < k. j * max 1 (L div 1000) < k * max 1 (L div 1000)))
   \<and> length (slice_step (max 1 (L div 1000)) bias_samples) \<le> 1999
   \<and> (L \<le> 1000 \<longrightarrow> length (slice_step (max 1 (L div 1000)) bias_samples) = L)
   \<and> (L = 5000 \<longrightarrow> max 1 (L div 1000) = 5
         \<and> length (slice_step (max 1 (L div 1000)) bias_samples) = 1000)"
proof (intro impI)
  assume h: "length bias_samples = L \<and> length slope_samples = L \<and> length ls = L \<and> 1 \<le> L"
  define s where "s = max 1 (L div 1000)"
  have s: "0 < s" by (simp add: s_def)
  from h have ne: "bias_samples \<noteq> []" "slope_samples \<noteq> []" "ls \<noteq> []" by auto
  from h ne have lasts: "last bias_samples = bias_samples ! (L - 1)"
    "last slope_samples = slope_samples ! (L - 1)" "last ls = ls ! (L - 1)"
    by (auto simp: last_conv_nth)
  obtain colors where c: "np_linspace 0 1 (int (length (slice_step s bias_samples))) = Inr colors"
    using linspace_unit_returns by blast
  have trace: "add_optimization_trace fig bias_samples slope_samples ls =
          Inr (fig @
            [\<lparr>trace_name = ''Optimization Path'',
              trace_x = slice_step s bias_samples,
              trace_y = slice_step s slope_samples,
              trace_z = slice_step s ls,
              trace_color = Scale colors\<rparr>,
             \<lparr>trace_name = ''Start Point'', trace_x = [bias_samples ! 0],
              trace_y = [slope_samples ! 0], trace_z = [ls ! 0],
              trace_color = Named ''red''\<rparr>,
             \<lparr>trace_name = ''End Point'', trace_x = [bias_samples ! (L - 1)],
              trace_y = [slope_samples ! (L - 1)], trace_z = [ls ! (L - 1)],
              trace_color = Named ''blue''\<rparr>])"
    using h c ne lasts by (simp add: add_optimization_trace_def Let_def s_def)
  have len: "length (slice_step s bias_samples) = (L + s - 1) div s"
    "length (slice_step s slope_samples) = (L + s - 1) div s"
    "length (slice_step s ls) = (L + s - 1) div s"
    using h by (simp_all add: slice_step_length)
  have entries: "k * s < L
        \<and> slice_step s bias_samples ! k = bias_samples ! (k * s)
        \<and> slice_step s slope_samples ! k = slope_samples ! (k * s)
        \<and> slice_step s ls ! k = ls ! (k * s)
        \<and> (\<forall>j < k. j * s < k * s)"
    if "k < length (slice_step s bias_samples)" for k
  proof -
    from that have k: "k < (L + s - 1) div s" by (simp add: len)
    from slice_index_in_range[OF s k] have "k * s < L" .
    moreover from k h have "slice_step s bias_samples ! k = bias_samples ! (k * s)"
      "slice_step s slope_samples ! k = slope_samples ! (k * s)"
      "slice_step s ls ! k = ls ! (k * s)"
      by (simp_all add: slice_step_nth)
    moreover from s have "\<forall>j < k. j * s < k * s" by simp
    ultimately show ?thesis by blast
  qed
  have len': "length (slice_step s bias_samples)
      = (L + max 1 (L div 1000) - 1) div max 1 (L div 1000)"
    using len(1) unfolding s_def .
  have bound: "length (slice_step s bias_samples) \<le> 1999"
    unfolding len' by (rule slice_count_bound)
  have small: "L \<le> 1000 \<longrightarrow> length (slice_step s bias_samples) = L"
    unfolding len' using slice_count_small[of L] by blast
  have five: "L = 5000 \<longrightarrow> s = 5 \<and> length (slice_step s bias_samples) = 1000"
    unfolding len' by (simp add: s_def)
  have e: "\<exists>colors. add_optimization_trace fig bias_samples slope_samples ls =
          Inr (fig @
            [\<lparr>trace_name = ''Optimization Path'',
              trace_x = slice_step s bias_samples,
              trace_y = slice_step s slope_samples,
              trace_z = slice_step s ls,
              trace_color = Scale colors\<rparr>,
             \<lparr>trace_name = ''Start Point'', trace_x = [bias_samples ! 0],
              trace_y = [slope_samples ! 0], trace_z = [ls ! 0],
              trace_color = Named ''red''\<rparr>,
             \<lparr>trace_name = ''End Point'', trace_x = [bias_samples ! (L - 1)],
              trace_y = [slope_samples ! (L - 1)], trace_z = [ls ! (L - 1)],
              trace_color = Named ''blue''\<rparr>])"
    using trace by blast
  have l2: "length (slice_step s slope_samples) = length (slice_step s bias_samples)"
    and l3: "length (slice_step s ls) = length (slice_step s bias_samples)"
    by (simp_all add: len)
  have ent: "\<forall>k < length (slice_step s bias_samples).
          k * s < L
        \<and> slice_step s bias_samples ! k = bias_samples ! (k * s)
        \<and> slice_step s slope_samples ! k = slope_samples ! (k * s)
        \<and> slice_step s ls ! k = ls ! (k * s)
        \<and> (\<forall>j < k. j * s < k * s)"
    using entries by blast
  from e len(1) l2 l3 ent bound small five
  show "(\<exists>colors.
        add_optimization_trace fig bias_samples slope_samples ls =
          Inr (fig @
            [\<lparr>trace_name = ''Optimization Path'',
              trace_x = slice_step (max 1 (L div 1000)) bias_samples,
              trace_y = slice_step (max 1 (L div 1000)) slope_samples,
              trace_z = slice_step (max 1 (L div 1000)) ls,
              trace_color = Scale colors\<rparr>,
             \<lparr>trace_name = ''Start Point'', trace_x = [bias_samples ! 0],
              trace_y = [slope_samples ! 0], trace_z = [ls ! 0],
              trace_color = Named ''red''\<rparr>,
             \<lparr>trace_name = ''End Point'', trace_x = [bias_samples ! (L - 1)],
              trace_y = [slope_samples ! (L - 1)], trace_z = [ls ! (L - 1)],
              trace_color = Named ''blue''\<rparr>]))
   \<and> length (slice_step (max 1 (L div 1000)) bias_samples)
        = (L + max 1 (L div 1000) - 1) div max 1 (L div 1000)
   \<and> length (slice_step (max 1 (L div 1000)) slope_samples)
        = length (slice_step (max 1 (L div 1000)) bias_samples)
   \<and> length (slice_step (max 1 (L div 1000)) ls)
        = length (slice_step (max 1 (L div 1000)) bias_samples)
   \<and> (\<forall>k < length (slice_step (max 1 (L div 1000)) bias_samples).
          k * max 1 (L div 1000) < L
        \<and> slice_step (max 1 (L div 1000)) bias_samples ! k
            = bias_samples ! (k * max 1 (L div 1000))
        \<and> slice_step (max 1 (L div 1000)) slope_samples ! k
            = slope_samples ! (k * max 1 (L div 1000))
        \<and> slice_step (max 1 (L div 1000)) ls ! k = ls ! (k * max 1 (L div 1000))
        \<and> (\<forall>j < k. j * max 1 (L div 1000) < k * max 1 (L div 1000)))
   \<and> length (slice_step (max 1 (L div 1000)) bias_samples) \<le> 1999
   \<and> (L \<le> 1000 \<longrightarrow> length (slice_step (max 1 (L div 1000)) bias_samples) = L)
   \<and> (L = 5000 \<longrightarrow> max 1 (L div 1000) = 5
         \<and> length (slice_step (max 1 (L div 1000)) bias_samples) = 1000)"
    unfolding s_def[symmetric] by - (intro conjI; assumption)
qed

theorem add_optimization_trace_subsample_witness:
  "length (replicate 5000 (0 :: real)) = 5000 \<and> (1 :: nat) \<le> 5000
   \<and> max 1 (5000 div 1000 :: nat) = 5
   \<and> length (slice_step (max 1 (5000 div 1000)) (replicate 5000 (0 :: real))) = 1000
   \<and> length (slice_step (max 1 (5000 div 1000)) (replicate 5000 (0 :: real))) \<le> 1999
   \<and> \<not> isl (add_optimization_trace [] (replicate 5000 0) (replicate 5000 0) (replicate 5000 0))"
  using add_optimization_trace_subsample
    [of "replicate 5000 0" 5000 "replicate 5000 0" "replicate 5000 0" "[]"]
  by auto

section \<open>Properties of the surface ranges\<close>

lemma detect_ranges_bias_only:
  "slope_center_of self = Inr sc \<Longrightarrow>
   detect_ranges self (Some br) None scale_factor = Inl UnboundLocalError"
  by (simp add: detect_ranges_def)

lemma detect_ranges_slope_only:
  "bias_center_of self = Inr bc \<Longrightarrow>
   detect_ranges self None (Some sr) scale_factor = Inl AssertionError"
  by (simp add: detect_ranges_def)

lemma detect_ranges_both_supplied:
  "detect_ranges self (Some br) (Some sr) scale_factor = Inr (br, sr)"
  by (simp add: detect_ranges_def)

lemma detect_ranges_both_omitted:
  "bias_center_of self = Inr bc \<Longrightarrow> slope_center_of self = Inr sc \<Longrightarrow>
   detect_ranges self None None scale_factor =
     Inr ((bc - max (\<bar>bc\<bar> * scale_factor) (\<bar>sc\<bar> * scale_factor),
           bc + max (\<bar>bc\<bar> * scale_factor) (\<bar>sc\<bar> * scale_factor)),
          (sc - max (\<bar>bc\<bar> * scale_factor) (\<bar>sc\<bar> * scale_factor),
           sc + max (\<bar>bc\<bar> * scale_factor) (\<bar>sc\<bar> * scale_factor)))"
  by (simp add: detect_ranges_def Let_def)

lemma example_centers:
  "bias_center_of \<lparr>x_data = [3, 10, 25], y_data = [1, 2, 4], true_bias = None,
      true_slope = None, standardized = False, x_mean = None, x_std = None, y_mean = None,
      y_std = None, true_sse = None, surface_min_bias = None, surface_min_slope = None,
      surface_min_sse = None\<rparr> = Inr (7 / 3)"
  "slope_center_of \<lparr>x_data = [3, 10, 25], y_data = [1, 2, 4], true_bias = None,
      true_slope = None, standardized = False, x_mean = None, x_std = None, y_mean = None,
      y_std = None, true_sse = None, surface_min_bias = None, surface_min_slope = None,
      surface_min_sse = None\<rparr> = Inr (3 / 22)"
  by (simp_all add: bias_center_of_def slope_center_of_def np_mean_def np_sum_def
      np_max_def np_min_def)

text \<open>
  C5. The call does not succeed for every combination of supplied and omitted ranges.
  On the dataset of the worked example, with only \<open>bias_range\<close> supplied it ends in
  \<open>UnboundLocalError\<close> (\<open>scope\<close> is read before any assignment), and with only
  \<open>slope_range\<close> supplied it ends in \<open>AssertionError\<close> (\<open>bias_range\<close> is
  still \<open>None\<close> at the \<open>assert\<close>).
\<close>

theorem calculate_sse_surface_one_range_fails:
  "init_visualizer [3, 10, 25] [1, 2, 4] None None False =
     Inr \<lparr>x_data = [3, 10, 25], y_data = [1, 2, 4], true_bias = None,
      true_slope = None, standardized = False, x_mean = None, x_std = None, y_mean = None,
      y_std = None, true_sse = None, surface_min_bias = None, surface_min_slope = None,
      surface_min_sse = None\<rparr>
   \<and> calculate_sse_surface \<lparr>x_data = [3, 10, 25], y_data = [1, 2, 4], true_bias = None,
      true_slope = None, standardized = False, x_mean = None, x_std = None, y_mean = None,
      y_std = None, true_sse = None, surface_min_bias = None, surface_min_slope = None,
      surface_min_sse = None\<rparr> (Some (0, 1)) None 50 3 = Inl UnboundLocalError
   \<and> calculate_sse_surface \<lparr>x_data = [3, 10, 25], y_data = [1, 2, 4], true_bias = None,
      true_slope = None, standardized = False, x_mean = None, x_std = None, y_mean = None,
      y_std = None, true_sse = None, surface_min_bias = None, surface_min_slope = None,
      surface_min_sse = None\<rparr> None (Some (0, 1)) 50 3 = Inl AssertionError"
  by (simp add: init_visualizer_def calculate_sse_surface_def
      detect_ranges_bias_only[OF example_centers(2)]
      detect_ranges_slope_only[OF example_centers(1)])

text \<open>
  With both ranges resolved, a resolution \<open>N \<ge> 0\<close> and data arrays of equal length,
  the three results are \<open>N\<close> by \<open>N\<close> and every cell of the third is the loss at
  the bias and slope of that cell.
\<close>

lemma sequence_results_map_Inr:
  "(\<forall>x \<in> set xs. f x = Inr (g x)) \<Longrightarrow> sequence_results (map f xs) = Inr (map g xs)"
  by (induction xs) simp_all

lemma np_linspace_length:
  "0 \<le> n \<Longrightarrow> \<exists>vs. np_linspace a b n = Inr vs \<and> length vs = nat n"
  by (simp add: np_linspace_def)

lemma surface_on_ranges_grid:
  assumes n: "0 \<le> n" and len: "length (x_data self) = length (y_data self)"
  shows "\<exists>bias_mesh slope_mesh sse_mesh.
           surface_on_ranges self br sr n = Inr (bias_mesh, slope_mesh, sse_mesh)
         \<and> length bias_mesh = nat n \<and> length slope_mesh = nat n \<and> length sse_mesh = nat n
         \<and> (\<forall>i < nat n.
               length (bias_mesh ! i) = nat n \<and> length (slope_mesh ! i) = nat n
             \<and> length (sse_mesh ! i) = nat n
             \<and> (\<forall>j < nat n.
                   sse_mesh ! i ! j =
                     (\<Sum>(xi, yi) \<leftarrow> zip (x_data self) (y_data self).
                        (yi - (bias_mesh ! i ! j + slope_mesh ! i ! j * xi)) ^ 2)))"
proof -
  from np_linspace_length[OF n] obtain bias_vals where
    bv: "np_linspace (fst br) (snd br) n = Inr bias_vals" and lb: "length bias_vals = nat n"
    by blast
  from np_linspace_length[OF n] obtain slope_vals where
    sv: "np_linspace (fst sr) (snd sr) n = Inr slope_vals" and ls: "length slope_vals = nat n"
    by blast
  define bias_mesh where "bias_mesh = replicate (length slope_vals) bias_vals"
  define slope_mesh where "slope_mesh = map (\<lambda>v. replicate (length bias_vals) v) slope_vals"
  define cell where "cell = (\<lambda>i j. \<Sum>(xi, yi) \<leftarrow> zip (x_data self) (y_data self).
                        (yi - (bias_mesh ! i ! j + slope_mesh ! i ! j * xi)) ^ 2)"
  define sse_mesh where "sse_mesh = map (\<lambda>i. map (\<lambda>j. cell i j) [0..<nat n]) [0..<nat n]"
  have c: "calculate_sse self (bias_mesh ! i ! j) (slope_mesh ! i ! j) = Inr (cell i j)" for i j
    unfolding calculate_sse_eq_loss cell_def by (rule calculate_loss_same_length[OF len])
  have rows: "sequence_results
                (map (\<lambda>j. calculate_sse self (bias_mesh ! i ! j) (slope_mesh ! i ! j)) [0..<nat n])
              = Inr (map (\<lambda>j. cell i j) [0..<nat n])" for i
    by (rule sequence_results_map_Inr) (simp add: c)
  have grid: "sequence_results
                (map (\<lambda>i. sequence_results
                        (map (\<lambda>j. calculate_sse self (bias_mesh ! i ! j) (slope_mesh ! i ! j))
                           [0..<nat n])) [0..<nat n])
              = Inr sse_mesh"
    unfolding sse_mesh_def by (rule sequence_results_map_Inr) (simp add: rows)
  have s: "surface_on_ranges self br sr n = Inr (bias_mesh, slope_mesh, sse_mesh)"
    unfolding surface_on_ranges_def np_meshgrid_def
    by (simp add: bv sv bias_mesh_def[symmetric] slope_mesh_def[symmetric] grid)
  have "length bias_mesh = nat n" "length slope_mesh = nat n" "length sse_mesh = nat n"
    by (simp_all add: bias_mesh_def slope_mesh_def sse_mesh_def ls)
  moreover have "length (bias_mesh ! i) = nat n \<and> length (slope_mesh ! i) = nat n
             \<and> length (sse_mesh ! i) = nat n
             \<and> (\<forall>j < nat n. sse_mesh ! i ! j = cell i j)" if "i < nat n" for i
    using that by (simp add: bias_mesh_def slope_mesh_def sse_mesh_def ls lb)
  ultimately show ?thesis
    using s unfolding cell_def by blast
qed

lemma calculate_sse_surface_both_supplied:
  "calculate_sse_surface self (Some br) (Some sr) n scale_factor = surface_on_ranges self br sr n"
  by (simp add: calculate_sse_surface_def detect_ranges_both_supplied)

text \<open>
  C6, as the code has it. With both ranges omitted, each half-width is
  \<open>|center| * scale_factor\<close>, the larger of the two is used for both parameters,
  and both ranges are \<open>(center - w, center + w)\<close> with that common \<open>w\<close>; the
  surface is computed on these two ranges. For a scale factor that is not negative,
  \<open>w = max(|bias_center|, |slope_center|) * scale_factor\<close>.
\<close>

theorem auto_ranges_common_half_width:
  "bias_center_of self = Inr bc \<and> slope_center_of self = Inr sc \<longrightarrow>
     detect_ranges self None None scale_factor =
       Inr ((bc - max (\<bar>bc\<bar> * scale_factor) (\<bar>sc\<bar> * scale_factor),
             bc + max (\<bar>bc\<bar> * scale_factor) (\<bar>sc\<bar> * scale_factor)),
            (sc - max (\<bar>bc\<bar> * scale_factor) (\<bar>sc\<bar> * scale_factor),
             sc + max (\<bar>bc\<bar> * scale_factor) (\<bar>sc\<bar> * scale_factor)))
   \<and> calculate_sse_surface self None None resolution scale_factor =
       surface_on_ranges self
         (bc - max (\<bar>bc\<bar> * scale_factor) (\<bar>sc\<bar> * scale_factor),
          bc + max (\<bar>bc\<bar> * scale_factor) (\<bar>sc\<bar> * scale_factor))
         (sc - max (\<bar>bc\<bar> * scale_factor) (\<bar>sc\<bar> * scale_factor),
          sc + max (\<bar>bc\<bar> * scale_factor) (\<bar>sc\<bar> * scale_factor))
         resolution
   \<and> (0 \<le> scale_factor \<longrightarrow>
         max (\<bar>bc\<bar> * scale_factor) (\<bar>sc\<bar> * scale_factor)
           = max \<bar>bc\<bar> \<bar>sc\<bar> * scale_factor)"
proof (intro impI)
  assume h: "bias_center_of self = Inr bc \<and> slope_center_of self = Inr sc"
  then have d: "detect_ranges self None None scale_factor =
       Inr ((bc - max (\<bar>bc\<bar> * scale_factor) (\<bar>sc\<bar> * scale_factor),
             bc + max (\<bar>bc\<bar> * scale_factor) (\<bar>sc\<bar> * scale_factor)),
            (sc - max (\<bar>bc\<bar> * scale_factor) (\<bar>sc\<bar> * scale_factor),
             sc + max (\<bar>bc\<bar> * scale_factor) (\<bar>sc\<bar> * scale_factor)))"
    using detect_ranges_both_omitted by blast
  have m: "0 \<le> scale_factor \<longrightarrow>
         max (\<bar>bc\<bar> * scale_factor) (\<bar>sc\<bar> * scale_factor)
           = max \<bar>bc\<bar> \<bar>sc\<bar> * scale_factor"
    by (simp add: max_mult_distrib_right)
  from d m show "detect_ranges self None None scale_factor =
       Inr ((bc - max (\<bar>bc\<bar> * scale_factor) (\<bar>sc\<bar> * scale_factor),
             bc + max (\<bar>bc\<bar> * scale_factor) (\<bar>sc\<bar> * scale_factor)),
            (sc - max (\<bar>bc\<bar> * scale_factor) (\<bar>sc\<bar> * scale_factor),
             sc + max (\<bar>bc\<bar> * scale_factor) (\<bar>sc\<bar> * scale_factor)))
   \<and> calculate_sse_surface self None None resolution scale_factor =
       surface_on_ranges self
         (bc - max (\<bar>bc\<bar> * scale_factor) (\<bar>sc\<bar> * scale_factor),
          bc + max (\<bar>bc\<bar> * scale_factor) (\<bar>sc\<bar> * scale_factor))
         (sc - max (\<bar>bc\<bar> * scale_factor) (\<bar>sc\<bar> * scale_factor),
          sc + max (\<bar>bc\<bar> * scale_factor) (\<bar>sc\<bar> * scale_factor))
         resolution
   \<and> (0 \<le> scale_factor \<longrightarrow>
         max (\<bar>bc\<bar> * scale_factor) (\<bar>sc\<bar> * scale_factor)
           = max \<bar>bc\<bar> \<bar>sc\<bar> * scale_factor)"
    by (simp add: calculate_sse_surface_def)
qed

lemma known_centers:
  "bias_center_of \<lparr>x_data = [3, 10, 25], y_data = [1, 2, 4], true_bias = Some 1,
      true_slope = Some 2, standardized = False, x_mean = None, x_std = None, y_mean = None,
      y_std = None, true_sse = Some 2606, surface_min_bias = None, surface_min_slope = None,
      surface_min_sse = None\<rparr> = Inr 1"
  "slope_center_of \<lparr>x_data = [3, 10, 25], y_data = [1, 2, 4], true_bias = Some 1,
      true_slope = Some 2, standardized = False, x_mean = None, x_std = None, y_mean = None,
      y_std = None, true_sse = Some 2606, surface_min_bias = None, surface_min_slope = None,
      surface_min_sse = None\<rparr> = Inr 2"
  by (simp_all add: bias_center_of_def slope_center_of_def)

lemma known_init:
  "init_visualizer [3, 10, 25] [1, 2, 4] (Some 1) (Some 2) False =
     Inr \<lparr>x_data = [3, 10, 25], y_data = [1, 2, 4], true_bias = Some 1,
      true_slope = Some 2, standardized = False, x_mean = None, x_std = None, y_mean = None,
      y_std = None, true_sse = Some 2606, surface_min_bias = None, surface_min_slope = None,
      surface_min_sse = None\<rparr>"
  by (simp add: init_visualizer_def calculate_sse_def np_broadcast_def np_sum_def)

text \<open>
  C6. The common half-width is not \<open>max(|bias_center|, |slope_center|) * scale_factor\<close>
  for every scale factor: with centres 1 and 2 and \<open>scale_factor = -1\<close> the code
  takes \<open>max(-1, -2) = -1\<close> and returns the ranges (2, 0) and (3, 1), where the
  formula gives \<open>-2\<close> and the ranges (3, -1) and (4, 0).
\<close>

theorem auto_ranges_negative_scale_counterexample:
  "detect_ranges \<lparr>x_data = [3, 10, 25], y_data = [1, 2, 4], true_bias = Some 1,
      true_slope = Some 2, standardized = False, x_mean = None, x_std = None, y_mean = None,
      y_std = None, true_sse = Some 2606, surface_min_bias = None, surface_min_slope = None,
      surface_min_sse = None\<rparr> None None (- 1) = Inr ((2, 0), (3, 1))
   \<and> ((1 - max \<bar>1\<bar> \<bar>2\<bar> * (- 1), 1 + max \<bar>1\<bar> \<bar>2\<bar> * (- 1)),
       (2 - max \<bar>1\<bar> \<bar>2\<bar> * (- 1), 2 + max \<bar>1\<bar> \<bar>2\<bar> * (- 1)))
      = ((3 :: real, - 1 :: real), (4 :: real, 0 :: real))
   \<and> ((2 :: real, 0 :: real), (3 :: real, 1 :: real)) \<noteq> ((3, - 1), (4, 0))"
  by (simp add: detect_ranges_both_omitted[OF known_centers])

theorem auto_ranges_common_half_width_witness:
  "bias_center_of \<lparr>x_data = [3, 10, 25], y_data = [1, 2, 4], true_bias = Some 1,
      true_slope = Some 2, standardized = False, x_mean = None, x_std = None, y_mean = None,
      y_std = None, true_sse = Some 2606, surface_min_bias = None, surface_min_slope = None,
      surface_min_sse = None\<rparr> = Inr 1
   \<and> slope_center_of \<lparr>x_data = [3, 10, 25], y_data = [1, 2, 4], true_bias = Some 1,
      true_slope = Some 2, standardized = False, x_mean = None, x_std = None, y_mean = None,
      y_std = None, true_sse = Some 2606, surface_min_bias = None, surface_min_slope = None,
      surface_min_sse = None\<rparr> = Inr 2
   \<and> (0 :: real) \<le> 3
   \<and> detect_ranges \<lparr>x_data = [3, 10, 25], y_data = [1, 2, 4], true_bias = Some 1,
      true_slope = Some 2, standardized = False, x_mean = None, x_std = None, y_mean = None,
      y_std = None, true_sse = Some 2606, surface_min_bias = None, surface_min_slope = None,
      surface_min_sse = None\<rparr> None None 3 = Inr ((- 5, 7), (- 4, 8))
   \<and> max (\<bar>1\<bar> * 3) (\<bar>2\<bar> * 3) = max \<bar>1\<bar> \<bar>2\<bar> * (3 :: real)"
  using auto_ranges_common_half_width
    [of "\<lparr>x_data = [3, 10, 25], y_data = [1, 2, 4], true_bias = Some 1,
      true_slope = Some 2, standardized = False, x_mean = None, x_std = None, y_mean = None,
      y_std = None, true_sse = Some 2606, surface_min_bias = None, surface_min_slope = None,
      surface_min_sse = None\<rparr>" 1 2 3]
    known_centers
  by simp

section \<open>Properties of the standardization\<close>

lemma sum_list_divide_const:
  "sum_list (map (\<lambda>v. f v / c) xs) = sum_list (map f xs) / (c :: real)"
  by (induction xs) (simp_all add: add_divide_distrib)

lemma sum_list_shift:
  "sum_list (map (\<lambda>v. v - m) xs) = sum_list xs - real (length xs) * (m :: real)"
  by (induction xs) (simp_all add: algebra_simps)

lemma np_mean_nonempty:
  "xs \<noteq> [] \<Longrightarrow> np_mean xs = Inr (sum_list xs / real (length xs))"
  by (simp add: np_mean_def np_sum_def)

lemma np_mean_InrD:
  "np_mean xs = Inr m \<Longrightarrow> xs \<noteq> [] \<and> m = sum_list xs / real (length xs)"
  by (auto simp: np_mean_def np_sum_def split: if_splits)

lemma np_std_InrD:
  assumes "np_std xs = Inr sd"
  shows "xs \<noteq> [] \<and> np_mean xs = Inr (sum_list xs / real (length xs))
       \<and> sd = sqrt (sum_list (map (\<lambda>v. (v - sum_list xs / real (length xs)) ^ 2) xs)
                     / real (length xs))"
proof -
  from assms obtain m where m: "np_mean xs = Inr m"
    by (cases "np_mean xs") (auto simp: np_std_def)
  from np_mean_InrD[OF m] have ne: "xs \<noteq> []" and mv: "m = sum_list xs / real (length xs)"
    by simp_all
  from assms m ne have "sd = sqrt (sum_list (map (\<lambda>v. \<bar>v - m\<bar> ^ 2) xs) / real (length xs))"
    by (auto simp: np_std_def np_mean_def np_sum_def o_def)
  with ne m mv show ?thesis by simp
qed

lemma standardized_mean:
  assumes "xs \<noteq> []" "m = sum_list xs / real (length xs)"
  shows "np_mean (map (\<lambda>v. (v - m) / c) xs) = Inr 0"
proof -
  have "sum_list (map (\<lambda>v. (v - m) / c) xs) = (sum_list xs - real (length xs) * m) / c"
    by (simp add: sum_list_divide_const sum_list_shift)
  also have "\<dots> = 0" using assms by simp
  finally show ?thesis using assms(1) by (simp add: np_mean_def np_sum_def)
qed

lemma standardized_std:
  assumes ne: "xs \<noteq> []" and m: "m = sum_list xs / real (length xs)"
    and sd: "sd = sqrt (sum_list (map (\<lambda>v. (v - m) ^ 2) xs) / real (length xs))"
    and nz: "sd \<noteq> 0"
  shows "np_std (map (\<lambda>v. (v - m) / sd) xs) = Inr 1"
proof -
  define var where "var = sum_list (map (\<lambda>v. (v - m) ^ 2) xs) / real (length xs)"
  have "0 \<le> sum_list (map (\<lambda>v. (v - m) ^ 2) xs)" by (rule sum_list_nonneg) auto
  then have var0: "0 \<le> var" by (simp add: var_def)
  from sd have sq: "sd ^ 2 = var" using var0 by (simp add: var_def)
  have mean0: "np_mean (map (\<lambda>v. (v - m) / sd) xs) = Inr 0"
    using standardized_mean[OF ne m] .
  have "sum_list (map (\<lambda>v. \<bar>v - 0\<bar> ^ 2) (map (\<lambda>v. (v - m) / sd) xs))
        = sum_list (map (\<lambda>v. (v - m) ^ 2 / sd ^ 2) xs)"
    by (simp add: o_def power_divide)
  also have "\<dots> = sum_list (map (\<lambda>v. (v - m) ^ 2) xs) / sd ^ 2"
    by (rule sum_list_divide_const)
  finally have "sum_list (map (\<lambda>v. \<bar>v - 0\<bar> ^ 2) (map (\<lambda>v. (v - m) / sd) xs))
                  / real (length xs) = var / sd ^ 2"
    by (simp add: var_def)
  also have "\<dots> = 1" using nz by (simp add: sq[symmetric])
  finally have one: "sum_list (map (\<lambda>v. \<bar>v - 0\<bar> ^ 2) (map (\<lambda>v. (v - m) / sd) xs))
                  / real (length xs) = 1" .
  have "np_mean (map (\<lambda>v. \<bar>v - 0\<bar> ^ 2) (map (\<lambda>v. (v - m) / sd) xs))
        = Inr (sum_list (map (\<lambda>v. \<bar>v - 0\<bar> ^ 2) (map (\<lambda>v. (v - m) / sd) xs))
                  / real (length xs))"
  proof -
    have "map (\<lambda>v. \<bar>v - 0\<bar> ^ 2) (map (\<lambda>v. (v - m) / sd) xs) \<noteq> []"
      using ne by simp
    from np_mean_nonempty[OF this] show ?thesis by (simp only: length_map)
  qed
  then have "np_mean (map (\<lambda>v. \<bar>v - 0\<bar> ^ 2) (map (\<lambda>v. (v - m) / sd) xs)) = Inr 1"
    by (simp only: one)
  with mean0 show ?thesis by (simp add: np_std_def)
qed

lemma standardized_residuals:
  assumes "sx \<noteq> 0" "sy \<noteq> (0 :: real)"
  shows "np_sum (map (\<lambda>v. v ^ 2)
            (map (\<lambda>(xi, yi). yi - ((b + s * mx - my) / sy + s * (sx / sy) * xi))
               (map (\<lambda>(xi, yi). ((xi - mx) / sx, (yi - my) / sy)) ds)))
         = np_sum (map (\<lambda>v. v ^ 2) (map (\<lambda>(xi, yi). yi - (b + s * xi)) ds)) / sy ^ 2"
proof -
  have eq: "(yi - my) / sy - ((b + s * mx - my) / sy + s * (sx / sy) * ((xi - mx) / sx))
        = (yi - (b + s * xi)) / sy" for xi yi
    using assms by (simp add: field_simps)
  have sqeq: "((yi - my) / sy - ((b + s * mx - my) / sy + s * (sx / sy) * ((xi - mx) / sx))) ^ 2
        = (yi - (b + s * xi)) ^ 2 / sy ^ 2" for xi yi
    unfolding eq by (rule power_divide)
  have "map (\<lambda>v. v ^ 2)
            (map (\<lambda>(xi, yi). yi - ((b + s * mx - my) / sy + s * (sx / sy) * xi))
               (map (\<lambda>(xi, yi). ((xi - mx) / sx, (yi - my) / sy)) ds))
        = map (\<lambda>p. ((snd p - my) / sy
                 - ((b + s * mx - my) / sy + s * (sx / sy) * ((fst p - mx) / sx))) ^ 2) ds"
    by (simp only: map_map o_def case_prod_beta fst_conv snd_conv)
  also have "\<dots> = map (\<lambda>p. (snd p - (b + s * fst p)) ^ 2 / sy ^ 2) ds"
    by (simp only: sqeq)
  finally have l: "map (\<lambda>v. v ^ 2)
            (map (\<lambda>(xi, yi). yi - ((b + s * mx - my) / sy + s * (sx / sy) * xi))
               (map (\<lambda>(xi, yi). ((xi - mx) / sx, (yi - my) / sy)) ds))
        = map (\<lambda>p. (snd p - (b + s * fst p)) ^ 2 / sy ^ 2) ds" .
  have r: "map (\<lambda>v. v ^ 2) (map (\<lambda>(xi, yi). yi - (b + s * xi)) ds)
        = map (\<lambda>p. (snd p - (b + s * fst p)) ^ 2) ds"
    by (simp only: map_map o_def case_prod_beta)
  show ?thesis
    unfolding l r np_sum_def by (rule sum_list_divide_const)
qed

lemma standardized_dataset:
  "map (\<lambda>v. (v - mx) / sx) (map fst ds)
     = map fst (map (\<lambda>(xi, yi). ((xi - mx) / sx, (yi - my) / sy)) ds)"
  "map (\<lambda>v. (v - my) / sy) (map snd ds)
     = map snd (map (\<lambda>(xi, yi). ((xi - mx) / sx, (yi - my) / sy)) ds)"
  by (simp_all add: o_def case_prod_beta)

text \<open>
  C7. For a dataset whose feature and target standard deviations are not zero, and with
  both true parameters given, the construction with \<open>standardize=True\<close> succeeds,
  leaves both arrays with mean 0 and standard deviation 1, and re-expresses the true
  parameters so that the loss it computes at them on the standardized data, multiplied
  by the target variance \<open>y_std ^ 2\<close>, is the loss that the construction without
  standardization computes at the original parameters on the original data. Over the
  reals the two are equal.
\<close>

theorem standardization_round_trip:
  "np_std (map fst ds) = Inr sx \<and> np_std (map snd ds) = Inr sy \<and> sx \<noteq> 0 \<and> sy \<noteq> 0 \<longrightarrow>
   (\<exists>v v0 mx my sse sse0.
      np_mean (map fst ds) = Inr mx \<and> np_mean (map snd ds) = Inr my
    \<and> init_visualizer (map fst ds) (map snd ds) (Some b) (Some s) True = Inr v
    \<and> init_visualizer (map fst ds) (map snd ds) (Some b) (Some s) False = Inr v0
    \<and> x_data v0 = map fst ds \<and> y_data v0 = map snd ds
    \<and> x_data v = map (\<lambda>xi. (xi - mx) / sx) (map fst ds)
    \<and> y_data v = map (\<lambda>yi. (yi - my) / sy) (map snd ds)
    \<and> np_mean (x_data v) = Inr 0 \<and> np_std (x_data v) = Inr 1
    \<and> np_mean (y_data v) = Inr 0 \<and> np_std (y_data v) = Inr 1
    \<and> true_bias v = Some ((b + s * mx - my) / sy)
    \<and> true_slope v = Some (s * (sx / sy))
    \<and> calculate_sse v ((b + s * mx - my) / sy) (s * (sx / sy)) = Inr sse
    \<and> true_sse v = Some sse
    \<and> calculate_sse v0 b s = Inr sse0
    \<and> true_sse v0 = Some sse0
    \<and> sse * sy ^ 2 = sse0)"
proof (intro impI)
  assume h: "np_std (map fst ds) = Inr sx \<and> np_std (map snd ds) = Inr sy \<and> sx \<noteq> 0 \<and> sy \<noteq> 0"
  define xs where "xs = map fst ds"
  define ys where "ys = map snd ds"
  define mx where "mx = sum_list xs / real (length xs)"
  define my where "my = sum_list ys / real (length ys)"
  from h have sdx: "np_std xs = Inr sx" and sdy: "np_std ys = Inr sy"
    and nzx: "sx \<noteq> 0" and nzy: "sy \<noteq> 0"
    by (simp_all add: xs_def ys_def)
  from np_std_InrD[OF sdx] have nex: "xs \<noteq> []" and mnx: "np_mean xs = Inr mx"
    and sxv: "sx = sqrt (sum_list (map (\<lambda>v. (v - mx) ^ 2) xs) / real (length xs))"
    by (simp_all add: mx_def)
  from np_std_InrD[OF sdy] have ney: "ys \<noteq> []" and mny: "np_mean ys = Inr my"
    and syv: "sy = sqrt (sum_list (map (\<lambda>v. (v - my) ^ 2) ys) / real (length ys))"
    by (simp_all add: my_def)
  define xs' where "xs' = map (\<lambda>v. (v - mx) / sx) xs"
  define ys' where "ys' = map (\<lambda>v. (v - my) / sy) ys"
  define b' where "b' = (b + s * mx - my) / sy"
  define s' where "s' = s * (sx / sy)"
  define ds' where "ds' = map (\<lambda>(xi, yi). ((xi - mx) / sx, (yi - my) / sy)) ds"
  have xs'_ds: "xs' = map fst ds'" and ys'_ds: "ys' = map snd ds'"
    unfolding xs'_def ys'_def xs_def ys_def ds'_def by (rule standardized_dataset)+
  define sse0 where "sse0 = np_sum (map (\<lambda>v. v ^ 2) (map (\<lambda>(xi, yi). yi - (b + s * xi)) ds))"
  define sse where "sse = np_sum (map (\<lambda>v. v ^ 2) (map (\<lambda>(xi, yi). yi - (b' + s' * xi)) ds'))"
  define self0 where "self0 = \<lparr>x_data = xs, y_data = ys, true_bias = Some b, true_slope = Some s,
                  standardized = False, x_mean = None, x_std = None, y_mean = None,
                  y_std = None, true_sse = None, surface_min_bias = None,
                  surface_min_slope = None, surface_min_sse = None\<rparr>"
  define scaled where "scaled = self0\<lparr>standardized := True,
                               x_mean := Some mx, x_std := Some sx,
                               y_mean := Some my, y_std := Some sy,
                               x_data := xs', y_data := ys',
                               true_bias := Some b', true_slope := Some s'\<rparr>"
  have std: "standardize_data self0 = Inr scaled"
    using mnx mny sdx sdy nzx nzy
    by (simp add: standardize_data_def self0_def scaled_def xs'_def ys'_def b'_def s'_def)
  have loss0: "calculate_sse self0 b s = Inr sse0"
    unfolding calculate_sse_eq_loss sse0_def
    using calculate_loss_dataset[of b s ds] by (simp add: self0_def xs_def ys_def)
  have loss1: "calculate_sse scaled b' s' = Inr sse"
    unfolding calculate_sse_eq_loss sse_def
    using calculate_loss_dataset[of b' s' ds'] by (simp add: scaled_def self0_def xs'_ds ys'_ds)
  have "sse = sse0 / sy ^ 2"
    unfolding sse_def sse0_def b'_def s'_def ds'_def
    using standardized_residuals[OF nzx nzy] by simp
  with nzy have rt: "sse * sy ^ 2 = sse0" by simp
  define v where "v = scaled\<lparr>true_sse := Some sse\<rparr>"
  define v0 where "v0 = self0\<lparr>true_sse := Some sse0\<rparr>"
  have i1: "init_visualizer xs ys (Some b) (Some s) True = Inr v"
    unfolding init_visualizer_def Let_def self0_def[symmetric]
    by (simp add: std loss1 v_def) (simp add: scaled_def loss1[unfolded scaled_def])
  have i0: "init_visualizer xs ys (Some b) (Some s) False = Inr v0"
    unfolding init_visualizer_def Let_def self0_def[symmetric]
    by (simp add: loss0 v0_def) (simp add: self0_def loss0[unfolded self0_def])
  have dv: "x_data v = xs'" "y_data v = ys'" "true_bias v = Some b'" "true_slope v = Some s'"
    "true_sse v = Some sse"
    by (simp_all add: v_def scaled_def)
  have dv0: "x_data v0 = xs" "y_data v0 = ys" "true_sse v0 = Some sse0"
    by (simp_all add: v0_def self0_def)
  have cv: "calculate_sse v b' s' = Inr sse"
    using loss1 by (simp add: calculate_sse_def v_def)
  have cv0: "calculate_sse v0 b s = Inr sse0"
    using loss0 by (simp add: calculate_sse_def v0_def)
  have m1: "np_mean (x_data v) = Inr 0" unfolding dv xs'_def
    by (rule standardized_mean[OF nex mx_def])
  have m2: "np_mean (y_data v) = Inr 0" unfolding dv ys'_def
    by (rule standardized_mean[OF ney my_def])
  have s1: "np_std (x_data v) = Inr 1" unfolding dv xs'_def
    by (rule standardized_std[OF nex mx_def sxv nzx])
  have s2: "np_std (y_data v) = Inr 1" unfolding dv ys'_def
    by (rule standardized_std[OF ney my_def syv nzy])
  show "\<exists>v v0 mx my sse sse0.
      np_mean (map fst ds) = Inr mx \<and> np_mean (map snd ds) = Inr my
    \<and> init_visualizer (map fst ds) (map snd ds) (Some b) (Some s) True = Inr v
    \<and> init_visualizer (map fst ds) (map snd ds) (Some b) (Some s) False = Inr v0
    \<and> x_data v0 = map fst ds \<and> y_data v0 = map snd ds
    \<and> x_data v = map (\<lambda>xi. (xi - mx) / sx) (map fst ds)
    \<and> y_data v = map (\<lambda>yi. (yi - my) / sy) (map snd ds)
    \<and> np_mean (x_data v) = Inr 0 \<and> np_std (x_data v) = Inr 1
    \<and> np_mean (y_data v) = Inr 0 \<and> np_std (y_data v) = Inr 1
    \<and> true_bias v = Some ((b + s * mx - my) / sy)
    \<and> true_slope v = Some (s * (sx / sy))
    \<and> calculate_sse v ((b + s * mx - my) / sy) (s * (sx / sy)) = Inr sse
    \<and> true_sse v = Some sse
    \<and> calculate_sse v0 b s = Inr sse0
    \<and> true_sse v0 = Some sse0
    \<and> sse * sy ^ 2 = sse0"
    apply (rule exI[of _ v], rule exI[of _ v0], rule exI[of _ mx], rule exI[of _ my],
        rule exI[of _ sse], rule exI[of _ sse0])
    using mnx mny i1 i0 dv dv0 cv cv0 m1 m2 s1 s2 rt
    unfolding xs_def[symmetric] ys_def[symmetric] xs'_def[symmetric] ys'_def[symmetric]
      b'_def[symmetric] s'_def[symmetric]
    apply -
    apply (intro conjI; assumption)
    done
qed

lemma example_std:
  "np_std (map fst ([(1, 0), (3, 4)] :: (real \<times> real) list)) = Inr 1"
  "np_std (map snd ([(1, 0), (3, 4)] :: (real \<times> real) list)) = Inr 2"
proof -
  have "sqrt 4 = 2" by (rule real_sqrt_unique) simp_all
  then show "np_std (map fst ([(1, 0), (3, 4)] :: (real \<times> real) list)) = Inr 1"
    "np_std (map snd ([(1, 0), (3, 4)] :: (real \<times> real) list)) = Inr 2"
    by (simp_all add: np_std_def np_mean_def np_sum_def)
qed

theorem standardization_round_trip_witness:
  "(np_std (map fst ([(1, 0), (3, 4)] :: (real \<times> real) list)) = Inr 1 \<and> np_std (map snd ([(1, 0), (3, 4)] :: (real \<times> real) list)) = Inr 2
     \<and> (1 :: real) \<noteq> 0 \<and> (2 :: real) \<noteq> 0)
   \<and> (\<exists>v v0 mx my sse sse0.
      np_mean (map fst ([(1, 0), (3, 4)] :: (real \<times> real) list)) = Inr mx \<and> np_mean (map snd ([(1, 0), (3, 4)] :: (real \<times> real) list)) = Inr my
    \<and> init_visualizer (map fst ([(1, 0), (3, 4)] :: (real \<times> real) list)) (map snd ([(1, 0), (3, 4)] :: (real \<times> real) list)) (Some 1) (Some 1) True
        = Inr v
    \<and> init_visualizer (map fst ([(1, 0), (3, 4)] :: (real \<times> real) list)) (map snd ([(1, 0), (3, 4)] :: (real \<times> real) list)) (Some 1) (Some 1) False
        = Inr v0
    \<and> x_data v0 = map fst ([(1, 0), (3, 4)] :: (real \<times> real) list) \<and> y_data v0 = map snd ([(1, 0), (3, 4)] :: (real \<times> real) list)
    \<and> x_data v = map (\<lambda>xi. (xi - mx) / 1) (map fst ([(1, 0), (3, 4)] :: (real \<times> real) list))
    \<and> y_data v = map (\<lambda>yi. (yi - my) / 2) (map snd ([(1, 0), (3, 4)] :: (real \<times> real) list))
    \<and> np_mean (x_data v) = Inr 0 \<and> np_std (x_data v) = Inr 1
    \<and> np_mean (y_data v) = Inr 0 \<and> np_std (y_data v) = Inr 1
    \<and> true_bias v = Some ((1 + 1 * mx - my) / 2)
    \<and> true_slope v = Some (1 * (1 / 2))
    \<and> calculate_sse v ((1 + 1 * mx - my) / 2) (1 * (1 / 2)) = Inr sse
    \<and> true_sse v = Some sse
    \<and> calculate_sse v0 1 1 = Inr sse0
    \<and> true_sse v0 = Some sse0
    \<and> sse * 2 ^ 2 = sse0)"
proof -
  have prem: "np_std (map fst ([(1, 0), (3, 4)] :: (real \<times> real) list)) = Inr 1 \<and> np_std (map snd ([(1, 0), (3, 4)] :: (real \<times> real) list)) = Inr 2
     \<and> (1 :: real) \<noteq> 0 \<and> (2 :: real) \<noteq> 0"
    using example_std by simp
  from standardization_round_trip[of "([(1, 0), (3, 4)] :: (real \<times> real) list)" 1 2 1 1, THEN mp, OF prem] prem
  show ?thesis by (rule conjI[rotated])
qed

end
